theory Spec2Isabelle
  imports Complex_Main
begin

section \<open>The OpenFX interface as the plugin sees it\<close>

text \<open>
  The plugin \<^verbatim>\<open>rvmofx.cpp\<close> talks to its host through string-valued
  properties. The constants below are the string values of the OpenFX headers
  (\<^verbatim>\<open>ofxCore.h\<close>, \<^verbatim>\<open>ofxImageEffect.h\<close>), which the plugin includes.
\<close>

datatype OfxStatus =
    kOfxStatOK
  | kOfxStatFailed
  | kOfxStatReplyDefault
  | kOfxStatErrUnknown
  | kOfxStatErrMemory

definition kOfxChangeUserEdited :: string where
  "kOfxChangeUserEdited = ''OfxChangeUserEdited''"

definition kOfxChangePluginEdited :: string where
  "kOfxChangePluginEdited = ''OfxChangePluginEdited''"

definition kOfxTypeClip :: string where
  "kOfxTypeClip = ''OfxTypeClip''"

definition kOfxTypeParameter :: string where
  "kOfxTypeParameter = ''OfxTypeParameter''"

definition kOfxImageComponentRGBA :: string where
  "kOfxImageComponentRGBA = ''OfxImageComponentRGBA''"

definition kOfxImageComponentRGB :: string where
  "kOfxImageComponentRGB = ''OfxImageComponentRGB''"

definition kOfxImageComponentAlpha :: string where
  "kOfxImageComponentAlpha = ''OfxImageComponentAlpha''"

definition kOfxBitDepthByte :: string where
  "kOfxBitDepthByte = ''OfxBitDepthByte''"

definition kOfxBitDepthShort :: string where
  "kOfxBitDepthShort = ''OfxBitDepthShort''"

definition kOfxBitDepthHalf :: string where
  "kOfxBitDepthHalf = ''OfxBitDepthHalf''"

definition kOfxBitDepthFloat :: string where
  "kOfxBitDepthFloat = ''OfxBitDepthFloat''"

definition kOfxImageEffectOutputClipName :: string where
  "kOfxImageEffectOutputClipName = ''Output''"

text \<open>
  C's \<^verbatim>\<open>strcmp\<close>: zero exactly when the two strings are equal, otherwise the
  sign of the first differing byte pair. The plugin uses both \<^verbatim>\<open>!strcmp(a, b)\<close>
  (the strings are equal) and the bare \<^verbatim>\<open>strcmp(a, b)\<close> as a condition (the
  strings differ).
\<close>

fun strcmp :: "string \<Rightarrow> string \<Rightarrow> int" where
  "strcmp [] [] = 0"
| "strcmp [] (b # bs) = - 1"
| "strcmp (a # as) [] = 1"
| "strcmp (a # as) (b # bs) =
     (if a = b then strcmp as bs
      else if (of_char a :: nat) < of_char b then - 1 else 1)"

text \<open>
  \<^verbatim>\<open>OfxTime\<close> is a C double (IEEE 754 binary64). The plugin compares times with
  \<^verbatim>\<open>==\<close>, adds 1.0 and tests for not-a-number. A double is the not-a-number
  value, one of the two infinities, or the real number it denotes (the two zeros
  denote the same number and compare equal). The values that the host can pass are
  the reals that a double can hold, that is, those that \<open>round_double\<close> leaves as
  they are.
\<close>

datatype OfxTime = NaN | PInf | MInf | Time real

definition isnan :: "OfxTime \<Rightarrow> bool" where
  "isnan t = (t = NaN)"

text \<open>The integer part of the binary logarithm of a positive natural number.\<close>

fun ilog2 :: "nat \<Rightarrow> nat" where
  "ilog2 n = (if n < 2 then 0 else Suc (ilog2 (n div 2)))"

declare ilog2.simps [simp del]

text \<open>
  The binary exponent \<open>e\<close> of a real \<open>y\<close> that is not zero:
  \<open>2^e \<le> \<bar>y\<bar> < 2^(e+1)\<close>.
\<close>

definition exponent :: "real \<Rightarrow> int" where
  "exponent y =
     (if 1 \<le> \<bar>y\<bar> then int (ilog2 (nat \<lfloor>\<bar>y\<bar>\<rfloor>))
      else - int (Suc (ilog2 (nat (\<lceil>1 / \<bar>y\<bar>\<rceil> - 1)))))"

definition pow2 :: "int \<Rightarrow> real" where
  "pow2 q = (if 0 \<le> q then 2 ^ nat q else 1 / 2 ^ nat (- q))"

text \<open>The nearest integer, a tie going to the even one.\<close>

definition round_even :: "real \<Rightarrow> int" where
  "round_even r =
     (if r - of_int \<lfloor>r\<rfloor> < 1 / 2 then \<lfloor>r\<rfloor>
      else if 1 / 2 < r - of_int \<lfloor>r\<rfloor> then \<lfloor>r\<rfloor> + 1
      else if even \<lfloor>r\<rfloor> then \<lfloor>r\<rfloor> else \<lfloor>r\<rfloor> + 1)"

text \<open>
  The double nearest to a real, ties to even, as the default rounding mode gives it:
  53 bits of significand, the place of the last bit no lower than \<open>2^-1074\<close>, and
  an infinity from \<open>2^1024\<close> on.
\<close>

definition round_double :: "real \<Rightarrow> OfxTime" where
  "round_double y =
     (if y = 0 then Time 0
      else
        let q = max (exponent y - 52) (- 1074);
            r = of_int (round_even (y / pow2 q)) * pow2 q
        in if 2 ^ 1024 \<le> r then PInf
           else if r \<le> - (2 ^ 1024) then MInf
           else Time r)"

text \<open>
  The sum of a double and a finite double \<open>d\<close>: the exact sum, rounded. The plugin
  only adds 1.0.
\<close>

fun time_add :: "OfxTime \<Rightarrow> real \<Rightarrow> OfxTime" where
  "time_add (Time x) d = round_double (x + d)"
| "time_add t d = t"

text \<open>
  The comparison \<^verbatim>\<open>==\<close> on doubles: false as soon as one side is not a number.
\<close>

fun time_eq :: "OfxTime \<Rightarrow> OfxTime \<Rightarrow> bool" where
  "time_eq (Time x) (Time y) = (x = y)"
| "time_eq PInf PInf = True"
| "time_eq MInf MInf = True"
| "time_eq _ _ = False"

section \<open>Tensors over an explicit store\<close>

text \<open>
  A libtorch tensor is a handle on a storage: two handles on one storage see each
  other's in-place writes. The store maps an address to the contents held there, as
  a list of channel planes (each plane a list of rows); the byte layout behind it
  (row stride, interleaving of the components, element width) is not represented.
  A tensor handle names its storage and the channel range it views, so that
  \<^verbatim>\<open>permute\<close>, \<^verbatim>\<open>unsqueeze\<close> and \<^verbatim>\<open>squeeze\<close> are the identity on handles and
  \<^verbatim>\<open>narrow\<close> along the channel axis only moves the range. Element values are
  real numbers: the rounding of 16 and 32 bit floats is not represented.
\<close>

datatype Device = kCPU | kCUDA

datatype Dtype = kByte | kShort | kFloat16 | kFloat32

type_synonym plane = "real list list"

type_synonym addr = nat

record Tensor =
  t_data :: addr
  t_device :: Device
  t_dtype :: Dtype
  t_ch0 :: nat
  t_nch :: nat

type_synonym Module = nat

text \<open>
  The two kinds of C++ exception that cross \<^verbatim>\<open>effectRender\<close>: the plugin's own
  \<^verbatim>\<open>NoImageEx\<close>, and anything derived from \<^verbatim>\<open>std::exception\<close> that libtorch or
  the standard library raises.
\<close>

datatype exn = NoImageEx | StdException

text \<open>
  \<^verbatim>\<open>struct ImageInfo\<close>. The fields \<^verbatim>\<open>rect\<close> and \<^verbatim>\<open>rowBytes\<close> only locate the
  pixels in host memory; here the pixels of the image are the planes that the store
  holds at \<open>ptr\<close>.
\<close>

record ImageInfo =
  h :: nat
  ptr :: addr
  pixelDepth :: string
  components :: string

section \<open>Instance data\<close>

text \<open>
  \<^verbatim>\<open>struct InstanceData\<close> and its member \<^verbatim>\<open>struct _torch\<close>. The clip and
  parameter handles are fixed at instance creation and stand for the clip or
  parameter of that name, so they are not fields here. A default-constructed
  \<^verbatim>\<open>torch::Tensor\<close> (undefined) is \<open>None\<close>; so is the default-constructed
  module.
\<close>

record torch_data =
  ready :: bool
  device :: Device
  type :: Dtype
  model :: "Module option"
  rn_time :: OfxTime
  rn :: "Tensor option list"

record InstanceData =
  hasGarbageMatte :: bool
  hasSolidMatte :: bool
  downsampleRatio :: real
  outputType :: int
  colorSource :: int
  postmultiplyAlpha :: bool
  torch :: torch_data

abbreviation (input) DEVICE_CPU :: int where "DEVICE_CPU \<equiv> 0"
abbreviation (input) DEVICE_CUDA :: int where "DEVICE_CUDA \<equiv> 1"
abbreviation (input) MODEL_MOBILENETV3 :: int where "MODEL_MOBILENETV3 \<equiv> 0"
abbreviation (input) MODEL_RESNET50 :: int where "MODEL_RESNET50 \<equiv> 1"
abbreviation (input) MODEL_CUSTOM :: int where "MODEL_CUSTOM \<equiv> 2"
abbreviation (input) MODEL_PRECISION_FLOAT16 :: int where "MODEL_PRECISION_FLOAT16 \<equiv> 0"
abbreviation (input) MODEL_PRECISION_FLOAT32 :: int where "MODEL_PRECISION_FLOAT32 \<equiv> 1"
abbreviation (input) OUTPUT_RGBA :: int where "OUTPUT_RGBA \<equiv> 0"
abbreviation (input) OUTPUT_ALPHA :: int where "OUTPUT_ALPHA \<equiv> 1"
abbreviation (input) COLOR_SRC_INPUT :: int where "COLOR_SRC_INPUT \<equiv> 0"
abbreviation (input) COLOR_SRC_MODEL :: int where "COLOR_SRC_MODEL \<equiv> 1"

text \<open>
  \<^verbatim>\<open>new InstanceData()\<close> in \<^verbatim>\<open>effectCreateInstance\<close>: the object is
  zero-initialised, then the constructor of \<^verbatim>\<open>_torch\<close> sets the device to the CPU
  and the time of the recurrent state to not-a-number.
\<close>

definition newInstanceData :: InstanceData where
  "newInstanceData =
     \<lparr> hasGarbageMatte = False, hasSolidMatte = False, downsampleRatio = 0,
       outputType = 0, colorSource = 0, postmultiplyAlpha = False,
       torch = \<lparr> ready = False, device = kCPU, type = kByte, model = None,
                 rn_time = NaN, rn = replicate 4 None \<rparr> \<rparr>"

section \<open>The host and the world outside the plugin\<close>

text \<open>
  What the plugin asks of its host and of libtorch, one trace entry per call that
  a claim observes.
\<close>

datatype event =
    EvGetImage nat
  | EvReleaseImage nat
  | EvAbort
  | EvLoad string
  | EvForward "Tensor option list" "real option"

text \<open>
  The state of everything outside the instance data: the host's parameter values
  and their enabled flags, the clips, the files and modules of libtorch, the store,
  the plugin's two globals (\<^verbatim>\<open>gBundlePath\<close> and the static buffer \<^verbatim>\<open>path\<close> of
  \<^verbatim>\<open>getModelFilename\<close>), and the trace.
  \<^item> \<open>clipImage c t\<close> is what \<^verbatim>\<open>clipGetImage\<close> finds for clip \<open>c\<close> at time \<open>t\<close>
    (\<open>None\<close>: any status other than \<^verbatim>\<open>kOfxStatOK\<close>).
  \<^item> \<open>hostAbort\<close> is the answer of the host's \<^verbatim>\<open>abort\<close> function.
  \<^item> \<open>uninitOutputH\<close> and \<open>uninitInputH\<close> are what the local variables
    \<^verbatim>\<open>outputImg.h\<close> and \<^verbatim>\<open>inputImg.h\<close> of \<^verbatim>\<open>effectRender\<close> hold as long as no
    successful \<^verbatim>\<open>clipGetImage\<close> has written them: the source does not initialise
    them, so they hold whatever the stack held, or what a failing \<^verbatim>\<open>clipGetImage\<close>
    left there (\<open>None\<close>: the null pointer).
  \<^item> \<open>jitLoad f\<close> is the module that \<^verbatim>\<open>torch::jit::load\<close> reads from file \<open>f\<close>
    (\<open>None\<close>: it raises); \<open>moduleTo m d\<close> tells whether moving module \<open>m\<close> to device
    \<open>d\<close> and freezing it succeed.
  \<^item> \<open>moduleForward m args kwarg\<close> is the forward pass of module \<open>m\<close> on the
    contents of its arguments (\<open>None\<close> for an undefined tensor) and the
    \<^verbatim>\<open>downsample_ratio\<close> keyword when given: \<open>None\<close> when it raises, else the
    contents of the tensors of the list it returns. The forward pass is taken to
    read its arguments only and to return tensors on storage of their own.
  \<^item> \<open>memcpyRows src dst\<close> is what the row-by-row \<^verbatim>\<open>memcpy\<close> of
    \<^verbatim>\<open>tensorToImage\<close> leaves in an image holding \<open>dst\<close> when the tensor holds
    \<open>src\<close> and the two do not have the same numbers of channels, rows and columns.
\<close>

record world =
  paramDevice :: int
  paramModel :: int
  paramModelFile :: "string option"
  paramModelPrecision :: int
  paramDownsampleRatio :: real
  paramOutputType :: int
  paramColorSource :: int
  paramPostmultiplyAlpha :: bool
  paramEnabled :: "string \<Rightarrow> bool"
  clipConnected :: "string \<Rightarrow> int"
  clipImage :: "string \<Rightarrow> OfxTime \<Rightarrow> ImageInfo option"
  hostAbort :: bool
  uninitOutputH :: "nat option"
  uninitInputH :: "nat option"
  gBundlePath :: string
  pathBuf :: string
  jitLoad :: "string \<Rightarrow> Module option"
  moduleTo :: "Module \<Rightarrow> Device \<Rightarrow> bool"
  moduleForward :: "Module \<Rightarrow> plane list option list \<Rightarrow> real option \<Rightarrow> plane list list option"
  memcpyRows :: "plane list \<Rightarrow> plane list \<Rightarrow> plane list"
  mem :: "addr \<Rightarrow> plane list"
  brk :: addr
  trace :: "event list"

section \<open>Helpers\<close>

text \<open>
  \<^verbatim>\<open>modelClearHistory\<close>: nothing when the time is already not-a-number;
  otherwise the time becomes not-a-number and the loop resets the four tensors.
\<close>

definition modelClearHistory :: "InstanceData \<Rightarrow> InstanceData" where
  "modelClearHistory priv =
     (if isnan (rn_time (torch priv)) then priv
      else priv\<lparr> torch := (torch priv)
             \<lparr> rn_time := NaN,
               rn := fold (\<lambda>i r. r[i := None]) [0..<4] (rn (torch priv)) \<rparr> \<rparr>)"

section \<open>Change notifications\<close>

text \<open>
  The properties of \<^verbatim>\<open>inArgs\<close> that \<^verbatim>\<open>effectInstanceChanged\<close> and
  \<^verbatim>\<open>effectEndInstanceChanged\<close> read.
\<close>

record changeArgs =
  changeReason :: string
  typeChanged :: string
  objChanged :: string

text \<open>
  \<^verbatim>\<open>effectInstanceChanged\<close>, branch by branch. In the clip branch the first two
  tests are \<^verbatim>\<open>if (strcmp(objChanged, "Input"))\<close> and
  \<^verbatim>\<open>if (strcmp(objChanged, "GarbageMatte"))\<close>, without negation, and the third is
  \<^verbatim>\<open>if (isClip && !strcmp(objChanged, "SolidMatte"))\<close>.
\<close>

definition effectInstanceChanged ::
  "world \<Rightarrow> changeArgs \<Rightarrow> InstanceData \<Rightarrow> OfxStatus \<times> InstanceData" where
  "effectInstanceChanged w inArgs priv =
     (if strcmp (changeReason inArgs) kOfxChangeUserEdited \<noteq> 0
      then (kOfxStatReplyDefault, priv)
      else
        let isClip = (strcmp (typeChanged inArgs) kOfxTypeClip = 0);
            isParam = (strcmp (typeChanged inArgs) kOfxTypeParameter = 0);
            obj = objChanged inArgs
        in
          if isParam \<and>
             (strcmp obj ''device'' = 0 \<or> strcmp obj ''model'' = 0 \<or>
              strcmp obj ''modelPrecision'' = 0 \<or> strcmp obj ''modelFile'' = 0)
          then (kOfxStatOK, priv\<lparr> torch := (torch priv)\<lparr> ready := False \<rparr> \<rparr>)
          else if isParam \<and> strcmp obj ''downsampleRatio'' = 0
          then (kOfxStatOK, modelClearHistory priv)
          else if isClip then
            (let connected = clipConnected w obj in
             if strcmp obj ''Input'' \<noteq> 0
             then (kOfxStatOK, modelClearHistory priv)
             else if strcmp obj ''GarbageMatte'' \<noteq> 0
             then (kOfxStatOK, priv\<lparr> hasGarbageMatte := (connected \<noteq> 0) \<rparr>)
             else if isClip \<and> strcmp obj ''SolidMatte'' = 0
             then (kOfxStatOK, priv\<lparr> hasSolidMatte := (connected \<noteq> 0) \<rparr>)
             else (kOfxStatReplyDefault, priv))
          else (kOfxStatReplyDefault, priv))"

section \<open>Parameter validity\<close>

definition setParamEnabledness :: "world \<Rightarrow> string \<Rightarrow> bool \<Rightarrow> world" where
  "setParamEnabledness w paramName enabledState =
     w\<lparr> paramEnabled := (paramEnabled w)(paramName := enabledState) \<rparr>"

text \<open>
  \<^verbatim>\<open>updateParamsValidity\<close>. The \<^verbatim>\<open>switch\<close> on the device has no default
  case: a value that is neither 0 nor 1 changes nothing.
\<close>

definition updateParamsValidity :: "world \<Rightarrow> world" where
  "updateParamsValidity w =
     (let dev = paramDevice w;
          w1 = (if dev = DEVICE_CPU
                then setParamEnabledness
                       (w\<lparr> paramModelPrecision := MODEL_PRECISION_FLOAT32 \<rparr>)
                       ''modelPrecision'' False
                else if dev = DEVICE_CUDA
                then setParamEnabledness w ''modelPrecision'' True
                else w);
          w2 = setParamEnabledness w1 ''modelFile'' (paramModel w1 = MODEL_CUSTOM);
          output_type = paramOutputType w2;
          w3 = setParamEnabledness w2 ''colorSource'' (output_type = OUTPUT_RGBA)
      in setParamEnabledness w3 ''postmultiplyAlpha'' (output_type = OUTPUT_RGBA))"

definition effectEndInstanceChanged ::
  "world \<Rightarrow> changeArgs \<Rightarrow> InstanceData \<Rightarrow> OfxStatus \<times> world \<times> InstanceData" where
  "effectEndInstanceChanged w inArgs priv =
     (let w1 = (if strcmp (changeReason inArgs) kOfxChangeUserEdited = 0
                then updateParamsValidity w else w)
      in (kOfxStatOK, w1,
          priv\<lparr> downsampleRatio := paramDownsampleRatio w1,
                outputType := paramOutputType w1,
                colorSource := paramColorSource w1,
                postmultiplyAlpha := paramPostmultiplyAlpha w1 \<rparr>))"

section \<open>Loading the model\<close>

definition PATH_MAX :: nat where
  "PATH_MAX = 4096"

text \<open>\<^verbatim>\<open>snprintf(path, PATH_MAX, ...)\<close> keeps at most \<open>PATH_MAX - 1\<close> bytes.\<close>

definition snprintf :: "string \<Rightarrow> string" where
  "snprintf s = take (PATH_MAX - 1) s"

text \<open>
  \<^verbatim>\<open>getModelFilename\<close> returns a pointer to its static buffer, or the null
  pointer for a custom model with no file name. For a model value outside the three
  cases of the \<^verbatim>\<open>switch\<close> the buffer is returned as the last call left it.
\<close>

definition getModelFilename :: "world \<Rightarrow> string option \<times> world" where
  "getModelFilename w =
     (let model = paramModel w;
          model_precision = paramModelPrecision w;
          model_file = paramModelFile w;
          fp = (if model_precision = MODEL_PRECISION_FLOAT16 then ''16'' else ''32'')
      in
        if model = MODEL_MOBILENETV3 then
          (let path = snprintf (gBundlePath w @ ''/Contents/Resources/rvm_mobilenetv3_fp''
                                 @ fp @ ''.torchscript'')
           in (Some path, w\<lparr> pathBuf := path \<rparr>))
        else if model = MODEL_RESNET50 then
          (let path = snprintf (gBundlePath w @ ''/Contents/Resources/rvm_resnet50_fp''
                                 @ fp @ ''.torchscript'')
           in (Some path, w\<lparr> pathBuf := path \<rparr>))
        else if model = MODEL_CUSTOM then
          (case model_file of
             None \<Rightarrow> (None, w)
           | Some f \<Rightarrow>
               if f = [] then (None, w)
               else (Some (snprintf f), w\<lparr> pathBuf := snprintf f \<rparr>))
        else (Some (pathBuf w), w))"

text \<open>
  \<^verbatim>\<open>modelSetup\<close>. Device and type are written to the instance before the load
  is tried; the module is assigned as soon as \<^verbatim>\<open>torch::jit::load\<close> returns; the
  history is cleared and \<open>ready\<close> set only after the whole \<^verbatim>\<open>try\<close> block.
\<close>

definition modelSetup :: "world \<Rightarrow> InstanceData \<Rightarrow> OfxStatus \<times> world \<times> InstanceData" where
  "modelSetup w priv =
     (if ready (torch priv) then (kOfxStatOK, w, priv)
      else
        let dev = paramDevice w;
            precision = paramModelPrecision w;
            ts = torch priv;
            ts1 = (if dev = DEVICE_CPU then ts\<lparr> device := kCPU \<rparr>
                   else if dev = DEVICE_CUDA then ts\<lparr> device := kCUDA \<rparr>
                   else ts);
            ts2 = (if precision = MODEL_PRECISION_FLOAT16 then ts1\<lparr> type := kFloat16 \<rparr>
                   else if precision = MODEL_PRECISION_FLOAT32 then ts1\<lparr> type := kFloat32 \<rparr>
                   else ts1)
        in
          case getModelFilename w of
            (None, w1) \<Rightarrow> (kOfxStatFailed, w1, priv\<lparr> torch := ts2 \<rparr>)
          | (Some model_file, w1) \<Rightarrow>
              (let w2 = w1\<lparr> trace := trace w1 @ [EvLoad model_file] \<rparr> in
               case jitLoad w2 model_file of
                 None \<Rightarrow> (kOfxStatFailed, w2, priv\<lparr> torch := ts2 \<rparr>)
               | Some m \<Rightarrow>
                   (let ts3 = ts2\<lparr> model := Some m \<rparr> in
                    if \<not> moduleTo w2 m (device ts3)
                    then (kOfxStatFailed, w2, priv\<lparr> torch := ts3 \<rparr>)
                    else
                      let priv4 = modelClearHistory (priv\<lparr> torch := ts3 \<rparr>)
                      in (kOfxStatOK, w2, priv4\<lparr> torch := (torch priv4)\<lparr> ready := True \<rparr> \<rparr>))))"

section \<open>Tensor operations\<close>

definition t_read :: "(addr \<Rightarrow> plane list) \<Rightarrow> Tensor \<Rightarrow> plane list" where
  "t_read m t = take (t_nch t) (drop (t_ch0 t) (m (t_data t)))"

definition t_write :: "(addr \<Rightarrow> plane list) \<Rightarrow> Tensor \<Rightarrow> plane list \<Rightarrow> addr \<Rightarrow> plane list" where
  "t_write m t ps =
     m(t_data t := take (t_ch0 t) (m (t_data t)) @ ps
                    @ drop (t_ch0 t + t_nch t) (m (t_data t)))"

text \<open>A tensor on storage of its own, at the next free address.\<close>

definition alloc :: "world \<Rightarrow> Device \<Rightarrow> Dtype \<Rightarrow> plane list \<Rightarrow> Tensor \<times> world" where
  "alloc w d ty ps =
     (\<lparr> t_data = brk w, t_device = d, t_dtype = ty, t_ch0 = 0, t_nch = length ps \<rparr>,
      w\<lparr> mem := (mem w)(brk w := ps), brk := Suc (brk w) \<rparr>)"

fun alloc_list :: "world \<Rightarrow> Device \<Rightarrow> Dtype \<Rightarrow> plane list list \<Rightarrow> Tensor list \<times> world" where
  "alloc_list w d ty [] = ([], w)"
| "alloc_list w d ty (ps # rest) =
     (case alloc w d ty ps of
        (t, w1) \<Rightarrow> (case alloc_list w1 d ty rest of (ts, w2) \<Rightarrow> (t # ts, w2)))"

text \<open>
  \<^verbatim>\<open>torch::from_blob\<close>: a CPU tensor of the element type of the image, on the
  memory of the image itself.
\<close>

definition from_blob :: "addr \<Rightarrow> nat \<Rightarrow> Dtype \<Rightarrow> Tensor" where
  "from_blob p nc dt =
     \<lparr> t_data = p, t_device = kCPU, t_dtype = dt, t_ch0 = 0, t_nch = nc \<rparr>"

text \<open>
  The element conversion of \<^verbatim>\<open>Tensor::to\<close>: to an integer type the value is
  truncated towards zero, to a float type it is kept (no rounding in this model).
\<close>

definition cast :: "Dtype \<Rightarrow> real \<Rightarrow> real" where
  "cast dt v =
     (if dt = kByte \<or> dt = kShort
      then (if 0 \<le> v then of_int \<lfloor>v\<rfloor> else of_int \<lceil>v\<rceil>)
      else v)"

text \<open>
  \<^verbatim>\<open>Tensor::to(device, dtype)\<close> as libtorch documents it: the tensor itself when
  it already has that device and that element type, otherwise a converted copy.
\<close>

definition tensor_to :: "world \<Rightarrow> Tensor \<Rightarrow> Device \<Rightarrow> Dtype \<Rightarrow> Tensor \<times> world" where
  "tensor_to w t td tt =
     (if t_device t = td \<and> t_dtype t = tt then (t, w)
      else alloc w td tt (map (map (map (cast tt))) (t_read (mem w) t)))"

text \<open>\<^verbatim>\<open>t *= sf\<close> with a scalar: in place, on the storage of \<open>t\<close>.\<close>

definition tensor_imul_scalar :: "world \<Rightarrow> Tensor \<Rightarrow> real \<Rightarrow> world" where
  "tensor_imul_scalar w t sf =
     w\<lparr> mem := t_write (mem w) t (map (map (map (\<lambda>v. v * sf))) (t_read (mem w) t)) \<rparr>"

definition narrow :: "Tensor \<Rightarrow> nat \<Rightarrow> nat \<Rightarrow> Tensor" where
  "narrow t start len = t\<lparr> t_ch0 := t_ch0 t + start, t_nch := len \<rparr>"

text \<open>\<^verbatim>\<open>t.repeat({1, n, 1, 1})\<close>: a new tensor, the channels of \<open>t\<close> tiled \<open>n\<close> times.\<close>

definition tensor_repeat :: "world \<Rightarrow> Tensor \<Rightarrow> nat \<Rightarrow> Tensor \<times> world" where
  "tensor_repeat w t n =
     alloc w (t_device t) (t_dtype t) (concat (replicate n (t_read (mem w) t)))"

text \<open>
  Broadcasting of the right operand of an in-place operation: along each axis its
  size is the size of the left operand, or 1.
\<close>

definition bcast :: "nat \<Rightarrow> 'a list \<Rightarrow> 'a list option" where
  "bcast n xs =
     (if length xs = n then Some xs
      else if length xs = 1 then Some (replicate n (hd xs))
      else None)"

definition mul_row :: "real list \<Rightarrow> real list \<Rightarrow> real list option" where
  "mul_row a b =
     (case bcast (length a) b of
        None \<Rightarrow> None
      | Some b' \<Rightarrow> Some (map2 (*) a b'))"

definition mul_plane :: "plane \<Rightarrow> plane \<Rightarrow> plane option" where
  "mul_plane a b =
     (case bcast (length a) b of
        None \<Rightarrow> None
      | Some b' \<Rightarrow> those (map2 mul_row a b'))"

definition mul_planes :: "plane list \<Rightarrow> plane list \<Rightarrow> plane list option" where
  "mul_planes a b =
     (case bcast (length a) b of
        None \<Rightarrow> None
      | Some b' \<Rightarrow> those (map2 mul_plane a b'))"

text \<open>
  \<^verbatim>\<open>a *= b\<close> on tensors: in place on the storage of \<open>a\<close>; libtorch raises when
  \<open>b\<close> does not broadcast to the shape of \<open>a\<close>.
\<close>

definition tensor_imul :: "world \<Rightarrow> Tensor \<Rightarrow> Tensor \<Rightarrow> exn option \<times> world" where
  "tensor_imul w a b =
     (case mul_planes (t_read (mem w) a) (t_read (mem w) b) of
        None \<Rightarrow> (Some StdException, w)
      | Some ps \<Rightarrow> (None, w\<lparr> mem := t_write (mem w) a ps \<rparr>))"

text \<open>
  \<^verbatim>\<open>torch::cat({a, b}, 1)\<close>: a new tensor with the channels of \<open>a\<close>, then those of
  \<open>b\<close>; libtorch raises unless all planes have the same rows and columns.
\<close>

definition tensor_cat :: "world \<Rightarrow> Tensor \<Rightarrow> Tensor \<Rightarrow> (exn + Tensor) \<times> world" where
  "tensor_cat w a b =
     (let pa = t_read (mem w) a; pb = t_read (mem w) b
      in if length (remdups (map (map length) (pa @ pb))) \<le> 1
         then (case alloc w (t_device a) (t_dtype a) (pa @ pb) of (t, w1) \<Rightarrow> (Inr t, w1))
         else (Inl StdException, w))"

text \<open>
  \<^verbatim>\<open>c10::List::get(pos)\<close> raises \<^verbatim>\<open>std::out_of_range\<close> beyond the end of the
  list.
\<close>

definition list_get :: "'a list \<Rightarrow> nat \<Rightarrow> exn + 'a" where
  "list_get xs pos = (if pos < length xs then Inr (xs ! pos) else Inl StdException)"

text \<open>
  The call \<^verbatim>\<open>priv->torch.model.forward(args, kwargs).toTensorList()\<close>: it is
  traced, it raises on the default-constructed module and where the module's forward
  pass raises, and its results are tensors on new storage, with the device and element
  type of the session.
\<close>

definition module_forward ::
  "world \<Rightarrow> Module option \<Rightarrow> Device \<Rightarrow> Dtype \<Rightarrow> Tensor option list \<Rightarrow> real option
     \<Rightarrow> Tensor list option \<times> world" where
  "module_forward w m d ty args kwargs =
     (let w0 = w\<lparr> trace := trace w @ [EvForward args kwargs] \<rparr> in
      case m of
        None \<Rightarrow> (None, w0)
      | Some md \<Rightarrow>
          (case moduleForward w0 md (map (map_option (t_read (mem w0))) args) kwargs of
             None \<Rightarrow> (None, w0)
           | Some outs \<Rightarrow> (case alloc_list w0 d ty outs of (ts, w1) \<Rightarrow> (Some ts, w1))))"

section \<open>The pixel-tensor bridge\<close>

text \<open>The chain of \<^verbatim>\<open>strcmp\<close> on \<^verbatim>\<open>img.components\<close>, the same in both directions.\<close>

definition numComponents :: "string \<Rightarrow> nat option" where
  "numComponents c =
     (if strcmp c kOfxImageComponentRGBA = 0 then Some 4
      else if strcmp c kOfxImageComponentRGB = 0 then Some 3
      else if strcmp c kOfxImageComponentAlpha = 0 then Some 1
      else None)"

text \<open>
  The chain on \<^verbatim>\<open>img.pixelDepth\<close>: the element type and the scale factor, the
  latter given by the caller for byte and for short.
\<close>

definition depthInfo :: "string \<Rightarrow> real \<Rightarrow> real \<Rightarrow> (Dtype \<times> real) option" where
  "depthInfo d sfByte sfShort =
     (if strcmp d kOfxBitDepthByte = 0 then Some (kByte, sfByte)
      else if strcmp d kOfxBitDepthShort = 0 then Some (kShort, sfShort)
      else if strcmp d kOfxBitDepthHalf = 0 then Some (kFloat16, 1)
      else if strcmp d kOfxBitDepthFloat = 0 then Some (kFloat32, 1)
      else None)"

text \<open>
  \<^verbatim>\<open>imageToTensor\<close>: \<open>None\<close> is the undefined tensor returned for an unknown
  layout or depth.
\<close>

definition imageToTensor ::
  "world \<Rightarrow> ImageInfo \<Rightarrow> Device \<Rightarrow> Dtype \<Rightarrow> Tensor option \<times> world" where
  "imageToTensor w img td tt =
     (case numComponents (components img) of
        None \<Rightarrow> (None, w)
      | Some nc \<Rightarrow>
          (case depthInfo (pixelDepth img) (1 / 255) (1 / 32768) of
             None \<Rightarrow> (None, w)
           | Some (dt, sf) \<Rightarrow>
               (case tensor_to w (from_blob (ptr img) nc dt) td tt of
                  (rv, w1) \<Rightarrow>
                    (Some rv, if sf \<noteq> 1 then tensor_imul_scalar w1 rv sf else w1))))"

text \<open>
  \<^verbatim>\<open>tensorToImage\<close>. After the conversion to the element type \<open>dt\<close> of the
  image the source pointer is taken with \<^verbatim>\<open>t.data_ptr<float>()\<close>, which libtorch
  refuses with an exception for a tensor whose element type is not 32 bit float.
  The rows are then copied into the image.
\<close>

definition tensorToImage :: "world \<Rightarrow> ImageInfo \<Rightarrow> Tensor \<Rightarrow> exn option \<times> world" where
  "tensorToImage w img t =
     (case numComponents (components img) of
        None \<Rightarrow> (None, w)
      | Some nc \<Rightarrow>
          (case depthInfo (pixelDepth img) 255 32768 of
             None \<Rightarrow> (None, w)
           | Some (dt, sf) \<Rightarrow>
               (let w1 = (if sf \<noteq> 1 then tensor_imul_scalar w t sf else w) in
                case tensor_to w1 t kCPU dt of
                  (t1, w2) \<Rightarrow>
                    if dt \<noteq> kFloat32 then (Some StdException, w2)
                    else
                      let src = t_read (mem w2) t1;
                          dst = mem w2 (ptr img)
                      in (None,
                          w2\<lparr> mem := (mem w2)(ptr img :=
                                (if length src = nc \<and> map (map length) src = map (map length) dst
                                 then src else memcpyRows w2 src dst)) \<rparr>))))"

section \<open>Rendering a frame\<close>

definition fillImageInfos :: "world \<Rightarrow> string \<Rightarrow> OfxTime \<Rightarrow> ImageInfo option \<times> world" where
  "fillImageInfos w clip time =
     (case clipImage w clip time of
        None \<Rightarrow> (None, w)
      | Some img \<Rightarrow> (Some img, w\<lparr> trace := trace w @ [EvGetImage (h img)] \<rparr>))"

definition set_rn :: "InstanceData \<Rightarrow> nat \<Rightarrow> Tensor \<Rightarrow> InstanceData" where
  "set_rn priv i t = priv\<lparr> torch := (torch priv)\<lparr> rn := (rn (torch priv))[i := Some t] \<rparr> \<rparr>"

text \<open>
  The part of \<^verbatim>\<open>effectRender\<close> headed \<^verbatim>\<open>Run the model\<close>, up to the two tensor
  outputs. The assignments follow the source's order: the time first, then the four
  recurrent states from positions 2 to 5, then the foreground and the alpha from
  positions 0 and 1; an exception leaves what was assigned before it.
\<close>

definition runModel ::
  "world \<Rightarrow> OfxTime \<Rightarrow> InstanceData \<Rightarrow> Tensor \<Rightarrow> (exn + Tensor \<times> Tensor) \<times> world \<times> InstanceData" where
  "runModel w time priv inputTensor =
     (let kwargs = (if downsampleRatio priv \<noteq> 0 then Some (downsampleRatio priv) else None);
          ts = torch priv;
          args = (if rn ts ! 0 \<noteq> None \<and>
                     (time_eq time (time_add (rn_time ts) 1) \<or> time_eq time (rn_time ts))
                  then [Some inputTensor, rn ts ! 0, rn ts ! 1, rn ts ! 2, rn ts ! 3]
                  else [Some inputTensor])
      in
        case module_forward w (model ts) (device ts) (type ts) args kwargs of
          (None, w1) \<Rightarrow> (Inl StdException, w1, priv)
        | (Some outputs, w1) \<Rightarrow>
            (let p0 = priv\<lparr> torch := ts\<lparr> rn_time := time \<rparr> \<rparr> in
             case list_get outputs 2 of Inl e \<Rightarrow> (Inl e, w1, p0) | Inr o2 \<Rightarrow>
            (let p1 = set_rn p0 0 o2 in
             case list_get outputs 3 of Inl e \<Rightarrow> (Inl e, w1, p1) | Inr o3 \<Rightarrow>
            (let p2 = set_rn p1 1 o3 in
             case list_get outputs 4 of Inl e \<Rightarrow> (Inl e, w1, p2) | Inr o4 \<Rightarrow>
            (let p3 = set_rn p2 2 o4 in
             case list_get outputs 5 of Inl e \<Rightarrow> (Inl e, w1, p3) | Inr o5 \<Rightarrow>
            (let p4 = set_rn p3 3 o5 in
             case list_get outputs 0 of Inl e \<Rightarrow> (Inl e, w1, p4) | Inr fgr \<Rightarrow>
            (case list_get outputs 1 of Inl e \<Rightarrow> (Inl e, w1, p4) | Inr pha \<Rightarrow>
               (Inr (fgr, pha), w1, p4))))))))"

text \<open>
  The part headed \<^verbatim>\<open>Post process of output tensor depending on options\<close>: the
  \<^verbatim>\<open>switch\<close> on the cached output type.
\<close>

definition postProcess ::
  "world \<Rightarrow> InstanceData \<Rightarrow> ImageInfo \<Rightarrow> Tensor \<Rightarrow> Tensor \<Rightarrow> Tensor \<Rightarrow> (exn + Tensor) \<times> world" where
  "postProcess w priv outputImg inputTensor fgr0 pha =
     (if outputType priv = OUTPUT_RGBA then
        (let fgr = (if colorSource priv = COLOR_SRC_INPUT then inputTensor else fgr0) in
         case (if postmultiplyAlpha priv
               then (case tensor_repeat w pha 3 of (r, w1) \<Rightarrow> tensor_imul w1 fgr r)
               else (None, w)) of
           (Some e, w2) \<Rightarrow> (Inl e, w2)
         | (None, w2) \<Rightarrow> tensor_cat w2 fgr pha)
      else if outputType priv = OUTPUT_ALPHA then
        (if strcmp (components outputImg) kOfxImageComponentRGBA = 0
         then (case tensor_repeat w pha 4 of (r, w1) \<Rightarrow> (Inr r, w1))
         else if strcmp (components outputImg) kOfxImageComponentRGB = 0
         then (case tensor_repeat w pha 3 of (r, w1) \<Rightarrow> (Inr r, w1))
         else if strcmp (components outputImg) kOfxImageComponentAlpha = 0
         then (Inr pha, w)
         else (Inl NoImageEx, w))
      else (Inl NoImageEx, w))"

text \<open>
  The body of the \<^verbatim>\<open>try\<close> block once both images are held: the outcome is the
  exception that left the block, if any.
\<close>

definition renderFrame ::
  "world \<Rightarrow> OfxTime \<Rightarrow> InstanceData \<Rightarrow> ImageInfo \<Rightarrow> ImageInfo
     \<Rightarrow> exn option \<times> world \<times> InstanceData" where
  "renderFrame w time priv outputImg inputImg =
     (case imageToTensor w inputImg (device (torch priv)) (type (torch priv)) of
        (None, w1) \<Rightarrow> (Some NoImageEx, w1, priv)
      | (Some it0, w1) \<Rightarrow>
          (if t_nch it0 \<noteq> 3 \<and> t_nch it0 \<noteq> 4 then (Some NoImageEx, w1, priv)
           else
             (let inputTensor = (if t_nch it0 = 4 then narrow it0 0 3 else it0) in
              (case runModel w1 time priv inputTensor of
                 (Inl e, w2, p2) \<Rightarrow> (Some e, w2, p2)
               | (Inr (fgr, pha), w2, p2) \<Rightarrow>
                   (case postProcess w2 p2 outputImg inputTensor fgr pha of
                      (Inl e, w3) \<Rightarrow> (Some e, w3, p2)
                    | (Inr outputTensor, w3) \<Rightarrow>
                        (case tensorToImage w3 outputImg outputTensor of
                           (r, w4) \<Rightarrow> (r, w4, p2)))))))"

text \<open>
  The whole \<^verbatim>\<open>try\<close> block, with the two local handles \<^verbatim>\<open>outputImg.h\<close> and
  \<^verbatim>\<open>inputImg.h\<close> as they stand when the block is left. The source leaves the two
  structures uninitialised: a handle that no successful \<^verbatim>\<open>clipGetImage\<close> has set
  is read as the stack left it (\<open>uninitOutputH\<close>, \<open>uninitInputH\<close>).
\<close>

definition renderTry ::
  "world \<Rightarrow> OfxTime \<Rightarrow> InstanceData
     \<Rightarrow> exn option \<times> nat option \<times> nat option \<times> world \<times> InstanceData" where
  "renderTry w time priv =
     (case fillImageInfos w kOfxImageEffectOutputClipName time of
        (None, w1) \<Rightarrow> (Some NoImageEx, uninitOutputH w1, uninitInputH w1, w1, priv)
      | (Some outputImg, w1) \<Rightarrow>
          (case fillImageInfos w1 ''Input'' time of
             (None, w2) \<Rightarrow> (Some NoImageEx, Some (h outputImg), uninitInputH w2, w2, priv)
           | (Some inputImg, w2) \<Rightarrow>
               (case renderFrame w2 time priv outputImg inputImg of
                  (r, w3, p3) \<Rightarrow> (r, Some (h outputImg), Some (h inputImg), w3, p3))))"

definition clipReleaseImage :: "world \<Rightarrow> nat option \<Rightarrow> world" where
  "clipReleaseImage w handle =
     (case handle of
        None \<Rightarrow> w
      | Some x \<Rightarrow> w\<lparr> trace := trace w @ [EvReleaseImage x] \<rparr>)"

text \<open>
  \<^verbatim>\<open>effectRender\<close>. The handler catches \<^verbatim>\<open>NoImageEx\<close> only: any other exception
  leaves the function at once (\<open>Inl\<close>), past the code headed \<^verbatim>\<open>Cleanup\<close>.
\<close>

definition effectRender ::
  "world \<Rightarrow> OfxTime \<Rightarrow> InstanceData \<Rightarrow> (exn + OfxStatus) \<times> world \<times> InstanceData" where
  "effectRender w time priv =
     (case modelSetup w priv of
        (status, w0, p0) \<Rightarrow>
          if status \<noteq> kOfxStatOK then (Inr status, w0, p0)
          else
            (case renderTry w0 time p0 of
               (Some StdException, outH, inH, w1, p1) \<Rightarrow> (Inl StdException, w1, p1)
             | (Some NoImageEx, outH, inH, w1, p1) \<Rightarrow>
                 (let w2 = w1\<lparr> trace := trace w1 @ [EvAbort] \<rparr>;
                      status1 = (if \<not> hostAbort w2 then kOfxStatFailed else kOfxStatOK)
                  in (Inr status1, clipReleaseImage (clipReleaseImage w2 outH) inH, p1))
             | (None, outH, inH, w1, p1) \<Rightarrow>
                 (Inr kOfxStatOK, clipReleaseImage (clipReleaseImage w1 outH) inH, p1)))"

text \<open>
  \<^verbatim>\<open>ofxMain\<close> for the render action: an exception that leaves the handler is
  answered with \<^verbatim>\<open>kOfxStatErrUnknown\<close>.
\<close>

definition ofxMain_render ::
  "world \<Rightarrow> OfxTime \<Rightarrow> InstanceData \<Rightarrow> OfxStatus \<times> world \<times> InstanceData" where
  "ofxMain_render w time priv =
     (case effectRender w time priv of
        (Inl e, w1, p1) \<Rightarrow> (kOfxStatErrUnknown, w1, p1)
      | (Inr status, w1, p1) \<Rightarrow> (status, w1, p1))"

section \<open>The host's calls as a state machine\<close>

text \<open>
  Between its creation and its destruction an instance is handed to
  \<^verbatim>\<open>effectInstanceChanged\<close>, \<^verbatim>\<open>effectEndInstanceChanged\<close> and (through
  \<^verbatim>\<open>ofxMain\<close>) \<^verbatim>\<open>effectRender\<close>, in any order; the other handlers do not write
  the instance data. Each call sees the world as the host presents it at that moment.
\<close>

datatype action =
    InstanceChanged changeArgs
  | EndInstanceChanged changeArgs
  | Render OfxTime

fun step :: "world \<Rightarrow> action \<Rightarrow> InstanceData \<Rightarrow> InstanceData" where
  "step w (InstanceChanged inArgs) priv = snd (effectInstanceChanged w inArgs priv)"
| "step w (EndInstanceChanged inArgs) priv = snd (snd (effectEndInstanceChanged w inArgs priv))"
| "step w (Render time) priv = snd (snd (ofxMain_render w time priv))"

fun run :: "(world \<times> action) list \<Rightarrow> InstanceData \<Rightarrow> InstanceData" where
  "run [] priv = priv"
| "run ((w, a) # rest) priv = run rest (step w a priv)"

section \<open>The specification's statements\<close>

text \<open>
  The arguments that the render code gives the forward pass: the input tensor
  followed by the four slots of the hidden state when the first slot holds a
  defined tensor and the requested time is the last-used time or the double that
  the machine computes as that time plus 1.0; otherwise the input tensor alone. The
  keyword \<^verbatim>\<open>downsample_ratio\<close> is given when the configured ratio is not 0. The
  calls of the forward pass are read off the trace.
\<close>

definition forwardArgs :: "OfxTime \<Rightarrow> torch_data \<Rightarrow> Tensor \<Rightarrow> Tensor option list" where
  "forwardArgs time ts inputTensor =
     (if rn ts ! 0 \<noteq> None \<and>
         (time_eq time (rn_time ts) \<or> time_eq time (time_add (rn_time ts) 1))
      then Some inputTensor # rn ts
      else [Some inputTensor])"

definition forwardKwargs :: "InstanceData \<Rightarrow> real option" where
  "forwardKwargs priv =
     (if downsampleRatio priv \<noteq> 0 then Some (downsampleRatio priv) else None)"

fun is_forward :: "event \<Rightarrow> bool" where
  "is_forward (EvForward args kwarg) = True"
| "is_forward e = False"

definition forwardCalls :: "event list \<Rightarrow> event list" where
  "forwardCalls tr = filter is_forward tr"

text \<open>
  The history is whole (four tensors and a time that is a number) or empty (no
  tensor and the not-a-number time).
\<close>

definition hist_full :: "torch_data \<Rightarrow> bool" where
  "hist_full ts =
     (\<not> isnan (rn_time ts) \<and> length (rn ts) = 4 \<and> list_all (\<lambda>t. t \<noteq> None) (rn ts))"

definition hist_empty :: "torch_data \<Rightarrow> bool" where
  "hist_empty ts = (isnan (rn_time ts) \<and> rn ts = replicate 4 None)"

definition hist_inv :: "torch_data \<Rightarrow> bool" where
  "hist_inv ts = (hist_full ts \<or> hist_empty ts)"

text \<open>
  The continuity rule in the words of the specification: the prior hidden state is
  supplied if and only if hidden state exists and the requested time equals the
  last-used time or the last-used time plus 1, the sum being the sum of the two
  numbers; in every other case the forward pass gets no hidden state.
\<close>

fun time_succ :: "OfxTime \<Rightarrow> OfxTime" where
  "time_succ (Time x) = Time (x + 1)"
| "time_succ t = t"

definition spec_forwardArgs :: "OfxTime \<Rightarrow> torch_data \<Rightarrow> Tensor \<Rightarrow> Tensor option list" where
  "spec_forwardArgs time ts inputTensor =
     (if hist_full ts \<and> (time_eq time (rn_time ts) \<or> time_eq time (time_succ (rn_time ts)))
      then Some inputTensor # rn ts
      else [Some inputTensor])"

text \<open>
  What the render path takes for granted of its surroundings: the host asks for a
  time that is a number, and a forward pass that returns, returns six tensors or
  more.
\<close>

definition six_outputs :: "world \<Rightarrow> bool" where
  "six_outputs w =
     (\<forall>m args kwarg outs. moduleForward w m args kwarg = Some outs \<longrightarrow> 6 \<le> length outs)"

fun well_behaved :: "world \<times> action \<Rightarrow> bool" where
  "well_behaved (w, Render time) = (\<not> isnan time \<and> six_outputs w)"
| "well_behaved (w, a) = True"

text \<open>
  The output compositor in the words of the specification, on the contents of the
  foreground \<open>F\<close>, the input \<open>I\<close> and the alpha \<open>A\<close>: the concatenation of the chosen
  foreground, multiplied by the alpha broadcast to three channels when asked, with
  the alpha; or the alpha broadcast to the channels of the destination layout; or a
  failure (\<open>None\<close>).
\<close>

definition layoutChannels :: "string \<Rightarrow> nat option" where
  "layoutChannels c =
     (if c = kOfxImageComponentRGBA then Some 4
      else if c = kOfxImageComponentRGB then Some 3
      else if c = kOfxImageComponentAlpha then Some 1
      else None)"

definition hadamard :: "plane list \<Rightarrow> plane list \<Rightarrow> plane list" where
  "hadamard a b = map2 (map2 (map2 (*))) a b"

definition spec_composite ::
  "int \<Rightarrow> int \<Rightarrow> bool \<Rightarrow> string \<Rightarrow> plane list \<Rightarrow> plane list \<Rightarrow> plane list
     \<Rightarrow> plane list option" where
  "spec_composite otype csource postmultiply layout F I A =
     (if otype = OUTPUT_RGBA then
        (let F' = (if csource = COLOR_SRC_MODEL then F else I)
         in Some ((if postmultiply then hadamard F' (concat (replicate 3 A)) else F') @ A))
      else if otype = OUTPUT_ALPHA then
        (case layoutChannels layout of
           None \<Rightarrow> None
         | Some n \<Rightarrow> Some (concat (replicate n A)))
      else None)"

text \<open>The contents of the tensor that \<open>postProcess\<close> hands on, \<open>None\<close> when it raises.\<close>

definition composed :: "(exn + Tensor) \<times> world \<Rightarrow> plane list option" where
  "composed r =
     (case r of
        (Inl e, w) \<Rightarrow> None
      | (Inr t, w) \<Rightarrow> Some (t_read (mem w) t))"

text \<open>
  A plane of the given numbers of rows and columns, and a tensor handle whose
  storage is allocated and holds the channels it views.
\<close>

definition shaped :: "nat \<Rightarrow> nat \<Rightarrow> plane \<Rightarrow> bool" where
  "shaped rows cols p = (length p = rows \<and> list_all (\<lambda>r. length r = cols) p)"

definition valid_view :: "world \<Rightarrow> Tensor \<Rightarrow> bool" where
  "valid_view w t = (t_data t < brk w \<and> t_ch0 t + t_nch t \<le> length (mem w (t_data t)))"

text \<open>
  The round trip of the specification's testable property: an image is converted to
  a tensor, and the tensor is written, unchanged, to an image.
\<close>

definition roundTrip ::
  "world \<Rightarrow> ImageInfo \<Rightarrow> ImageInfo \<Rightarrow> Device \<Rightarrow> Dtype \<Rightarrow> exn option \<times> world" where
  "roundTrip w src dst td tt =
     (case imageToTensor w src td tt of
        (None, w1) \<Rightarrow> (None, w1)
      | (Some t, w1) \<Rightarrow> tensorToImage w1 dst t)"

section \<open>A concrete instance and host\<close>

text \<open>
  A host with one-pixel float RGBA images on both clips, the input image at address
  1 and the output image at address 0, the CPU as device, and the colour taken from
  the input clip and multiplied by the alpha. The module returns six tensors: a
  foreground, an alpha of one half, and four recurrent states.
\<close>

definition exForward ::
  "Module \<Rightarrow> plane list option list \<Rightarrow> real option \<Rightarrow> plane list list option" where
  "exForward m args kwarg =
     Some [[[[1]], [[1]], [[1]]], [[[1 / 2]]], [[[0]]], [[[0]]], [[[0]]], [[[0]]]]"

definition exImage :: "string \<Rightarrow> OfxTime \<Rightarrow> ImageInfo option" where
  "exImage clip time =
     (if clip = ''Output''
      then Some \<lparr> h = 1, ptr = 0, pixelDepth = kOfxBitDepthFloat,
                  components = kOfxImageComponentRGBA \<rparr>
      else if clip = ''Input''
      then Some \<lparr> h = 2, ptr = 1, pixelDepth = kOfxBitDepthFloat,
                  components = kOfxImageComponentRGBA \<rparr>
      else None)"

definition exMem :: "addr \<Rightarrow> plane list" where
  "exMem a =
     (if a = 0 then [[[0]], [[0]], [[0]], [[0]]]
      else if a = 1 then [[[1 / 2]], [[1 / 4]], [[1]], [[1]]]
      else [])"

definition exWorld :: world where
  "exWorld =
     \<lparr> paramDevice = DEVICE_CPU, paramModel = MODEL_MOBILENETV3, paramModelFile = None,
       paramModelPrecision = MODEL_PRECISION_FLOAT32, paramDownsampleRatio = 0,
       paramOutputType = OUTPUT_RGBA, paramColorSource = COLOR_SRC_INPUT,
       paramPostmultiplyAlpha = True, paramEnabled = (\<lambda>n. True),
       clipConnected = (\<lambda>c. 1), clipImage = exImage, hostAbort = False,
       uninitOutputH = Some 7, uninitInputH = Some 8,
       gBundlePath = ''/plugin'', pathBuf = [], jitLoad = (\<lambda>f. Some 1),
       moduleTo = (\<lambda>m d. True), moduleForward = exForward,
       memcpyRows = (\<lambda>src dst. dst), mem = exMem, brk = 2, trace = [] \<rparr>"

text \<open>The end of a batch of user edits, and a user edit of a clip.\<close>

definition userEdit :: changeArgs where
  "userEdit =
     \<lparr> changeReason = kOfxChangeUserEdited, typeChanged = kOfxTypeParameter,
       objChanged = ''colorSource'' \<rparr>"

definition clipEdit :: "string \<Rightarrow> changeArgs" where
  "clipEdit name =
     \<lparr> changeReason = kOfxChangeUserEdited, typeChanged = kOfxTypeClip,
       objChanged = name \<rparr>"

text \<open>
  The instance after its creation and a first batch of edits, and the instance
  after it has then rendered the frame at time 1.
\<close>

definition exPriv :: InstanceData where
  "exPriv = snd (snd (effectEndInstanceChanged exWorld userEdit newInstanceData))"

definition exHistory :: InstanceData where
  "exHistory =
     \<lparr> hasGarbageMatte = False, hasSolidMatte = False, downsampleRatio = 0,
       outputType = 0, colorSource = 0, postmultiplyAlpha = True,
       torch = \<lparr> ready = True, device = kCPU, type = kFloat32, model = Some 1,
                 rn_time = Time 1,
                 rn = [Some \<lparr> t_data = 4, t_device = kCPU, t_dtype = kFloat32,
                               t_ch0 = 0, t_nch = 1 \<rparr>,
                       Some \<lparr> t_data = 5, t_device = kCPU, t_dtype = kFloat32,
                               t_ch0 = 0, t_nch = 1 \<rparr>,
                       Some \<lparr> t_data = 6, t_device = kCPU, t_dtype = kFloat32,
                               t_ch0 = 0, t_nch = 1 \<rparr>,
                       Some \<lparr> t_data = 7, t_device = kCPU, t_dtype = kFloat32,
                               t_ch0 = 0, t_nch = 1 \<rparr>] \<rparr> \<rparr>"

text \<open>
  The same host with a module whose forward pass raises, and with a module that
  returns three tensors only.
\<close>

definition exFailing :: world where
  "exFailing = exWorld\<lparr> moduleForward := (\<lambda>m args kwarg. None) \<rparr>"

definition exShort :: world where
  "exShort =
     exWorld\<lparr> moduleForward :=
       (\<lambda>m args kwarg. Some [[[[1]], [[1]], [[1]]], [[[1 / 2]]], [[[0]]]]) \<rparr>"

text \<open>
  A session: the end of a batch of user edits, then the frame at time 1.
\<close>

definition exSession :: "(world \<times> action) list" where
  "exSession = [(exWorld, EndInstanceChanged userEdit), (exWorld, Render (Time 1))]"

text \<open>
  Three tensors in a store: the first three channels of the input image at address
  1, a foreground at address 2 and an alpha at address 3.
\<close>

definition exCompose :: world where
  "exCompose =
     exWorld\<lparr> mem := exMem(2 := [[[1]], [[1]], [[1]]], 3 := [[[1 / 2]]]), brk := 4 \<rparr>"

definition exInput :: Tensor where
  "exInput = \<lparr> t_data = 1, t_device = kCPU, t_dtype = kFloat32, t_ch0 = 0, t_nch = 3 \<rparr>"

definition exFgr :: Tensor where
  "exFgr = \<lparr> t_data = 2, t_device = kCPU, t_dtype = kFloat32, t_ch0 = 0, t_nch = 3 \<rparr>"

definition exPha :: Tensor where
  "exPha = \<lparr> t_data = 3, t_device = kCPU, t_dtype = kFloat32, t_ch0 = 0, t_nch = 1 \<rparr>"

definition exOutputImg :: ImageInfo where
  "exOutputImg =
     \<lparr> h = 1, ptr = 0, pixelDepth = kOfxBitDepthFloat, components = kOfxImageComponentRGBA \<rparr>"






text \<open>
  Two one-pixel RGBA images of depth byte: a source at address 1 and a destination,
  all zero, at address 0.
\<close>

definition exByteMem :: "addr \<Rightarrow> plane list" where
  "exByteMem a =
     (if a = 0 then [[[0]], [[0]], [[0]], [[0]]]
      else if a = 1 then [[[255]], [[128]], [[0]], [[64]]]
      else [])"

definition exByteWorld :: world where
  "exByteWorld = exWorld\<lparr> mem := exByteMem \<rparr>"

definition exByteSrc :: ImageInfo where
  "exByteSrc =
     \<lparr> h = 2, ptr = 1, pixelDepth = kOfxBitDepthByte, components = kOfxImageComponentRGBA \<rparr>"

definition exByteDst :: ImageInfo where
  "exByteDst =
     \<lparr> h = 1, ptr = 0, pixelDepth = kOfxBitDepthByte, components = kOfxImageComponentRGBA \<rparr>"

section \<open>Properties\<close>

lemma strcmp_eq_0: "strcmp a b = 0 \<longleftrightarrow> a = b"
  by (induction a b rule: strcmp.induct) auto

lemmas ofx_consts = kOfxChangeUserEdited_def kOfxChangePluginEdited_def kOfxTypeClip_def
  kOfxTypeParameter_def kOfxImageComponentRGBA_def kOfxImageComponentRGB_def
  kOfxImageComponentAlpha_def kOfxBitDepthByte_def kOfxBitDepthShort_def
  kOfxBitDepthHalf_def kOfxBitDepthFloat_def kOfxImageEffectOutputClipName_def

lemmas render_defs = effectRender_def renderTry_def renderFrame_def runModel_def
  postProcess_def tensorToImage_def imageToTensor_def fillImageInfos_def
  clipReleaseImage_def modelSetup_def getModelFilename_def modelClearHistory_def
  module_forward_def list_get_def set_rn_def numComponents_def depthInfo_def
  snprintf_def PATH_MAX_def isnan_def

lemmas tensor_defs = t_read_def t_write_def alloc_def from_blob_def cast_def tensor_to_def
  tensor_imul_scalar_def narrow_def tensor_repeat_def bcast_def mul_row_def mul_plane_def
  mul_planes_def tensor_imul_def tensor_cat_def

lemmas ex_defs = exWorld_def exForward_def exImage_def exMem_def userEdit_def

subsection \<open>The concrete instance\<close>

lemma exPriv_eq:
  "exPriv =
     \<lparr> hasGarbageMatte = False, hasSolidMatte = False, downsampleRatio = 0,
       outputType = 0, colorSource = 0, postmultiplyAlpha = True,
       torch = \<lparr> ready = False, device = kCPU, type = kByte, model = None,
                 rn_time = NaN, rn = [None, None, None, None] \<rparr> \<rparr>"
  by (simp add: exPriv_def effectEndInstanceChanged_def updateParamsValidity_def
      setParamEnabledness_def ex_defs ofx_consts newInstanceData_def eval_nat_numeral)

text \<open>Rendering the frame at time 1 succeeds and leaves the instance \<open>exHistory\<close>.\<close>

lemma exHistory_reached:
  "fst (effectRender exWorld (Time 1) exPriv) = Inr kOfxStatOK \<and>
   snd (snd (effectRender exWorld (Time 1) exPriv)) = exHistory"
  by (simp add: exPriv_eq render_defs tensor_defs ex_defs ofx_consts Let_def
      eval_nat_numeral exHistory_def)

subsection \<open>Change notifications on clips\<close>

lemma clip_edit_input:
  "effectInstanceChanged w (clipEdit ''Input'') priv =
     (kOfxStatOK, priv\<lparr> hasGarbageMatte := (clipConnected w ''Input'' \<noteq> 0) \<rparr>)"
  by (simp add: effectInstanceChanged_def clipEdit_def ofx_consts)

lemma clip_edit_other:
  "name \<noteq> ''Input'' \<Longrightarrow>
   effectInstanceChanged w (clipEdit name) priv = (kOfxStatOK, modelClearHistory priv)"
  by (simp add: effectInstanceChanged_def clipEdit_def strcmp_eq_0 Let_def)
     (simp add: ofx_consts)

text \<open>
  C2. A user edit of the clip \<^verbatim>\<open>Input\<close> should invalidate the recurrent history.
  On the instance that has just rendered frame 1 the code returns with the time of
  the history still 1 and the four tensors still held: the test
  \<^verbatim>\<open>strcmp(objChanged, "Input")\<close> is false for this very name, and the next
  test, true for it, stores the connection flag of \<^verbatim>\<open>Input\<close> as that of the
  garbage matte.
\<close>

theorem input_clip_edit_keeps_history:
  "effectInstanceChanged exWorld (clipEdit ''Input'') exHistory =
     (kOfxStatOK, exHistory\<lparr> hasGarbageMatte := True \<rparr>)"
  by (simp add: clip_edit_input exWorld_def)

text \<open>
  C3. A user edit of the clip \<^verbatim>\<open>GarbageMatte\<close> should only update the cached
  connection flag of that clip. On the instance that has just rendered frame 1, with
  the matte connected, the code leaves the flag false and clears the history instead:
  the time becomes not-a-number and the four tensors are released.
\<close>

theorem matte_clip_edit_clears_history:
  "effectInstanceChanged exWorld (clipEdit ''GarbageMatte'') exHistory =
     (kOfxStatOK,
      exHistory\<lparr> torch := (torch exHistory)
                   \<lparr> rn_time := NaN, rn := [None, None, None, None] \<rparr> \<rparr>)"
  by (simp add: clip_edit_other modelClearHistory_def isnan_def exHistory_def
      eval_nat_numeral)

subsection \<open>Loading the model\<close>

lemma modelSetup_ready:
  "ready (torch priv) \<Longrightarrow> modelSetup w priv = (kOfxStatOK, w, priv)"
  by (simp add: modelSetup_def)

lemma modelClearHistory_ready: "ready (torch (modelClearHistory p)) = ready (torch p)"
  by (simp add: modelClearHistory_def)

lemma modelSetup_ok_ready:
  "modelSetup w priv = (kOfxStatOK, w', priv') \<Longrightarrow> ready (torch priv')"
  by (auto simp: modelSetup_def Let_def modelClearHistory_ready
           split: if_splits prod.splits option.splits)

text \<open>
  C7. The load step is idempotent. When the session is ready, \<^verbatim>\<open>modelSetup\<close>
  returns success and leaves the world (so the trace has no new load) and the whole
  instance as they were; a load is traced only when the session was not ready; and
  after a successful call, a second call on the result changes nothing and succeeds.
\<close>

theorem modelSetup_idempotent:
  "(ready (torch priv) \<longrightarrow> modelSetup w priv = (kOfxStatOK, w, priv)) \<and>
   (trace (fst (snd (modelSetup w priv))) \<noteq> trace w \<longrightarrow> \<not> ready (torch priv)) \<and>
   (fst (modelSetup w priv) = kOfxStatOK \<longrightarrow>
      modelSetup (fst (snd (modelSetup w priv))) (snd (snd (modelSetup w priv)))
        = (kOfxStatOK, snd (modelSetup w priv)))"
proof (intro conjI impI)
  assume "ready (torch priv)"
  then show "modelSetup w priv = (kOfxStatOK, w, priv)"
    by (rule modelSetup_ready)
next
  assume changed: "trace (fst (snd (modelSetup w priv))) \<noteq> trace w"
  show "\<not> ready (torch priv)"
  proof
    assume "ready (torch priv)"
    then have "modelSetup w priv = (kOfxStatOK, w, priv)"
      by (rule modelSetup_ready)
    with changed show False by simp
  qed
next
  assume ok: "fst (modelSetup w priv) = kOfxStatOK"
  obtain w' priv' where r: "modelSetup w priv = (kOfxStatOK, w', priv')"
    using ok by (cases "modelSetup w priv") auto
  then have "ready (torch priv')"
    by (rule modelSetup_ok_ready)
  then have "modelSetup w' priv' = (kOfxStatOK, w', priv')"
    by (rule modelSetup_ready)
  with r show "modelSetup (fst (snd (modelSetup w priv))) (snd (snd (modelSetup w priv)))
        = (kOfxStatOK, snd (modelSetup w priv))"
    by simp
qed

theorem modelSetup_idempotent_witness:
  "ready (torch exHistory) \<and>
   modelSetup exWorld exHistory = (kOfxStatOK, exWorld, exHistory) \<and>
   \<not> ready (torch exPriv) \<and>
   trace (fst (snd (modelSetup exWorld exPriv))) \<noteq> trace exWorld \<and>
   fst (modelSetup exWorld exPriv) = kOfxStatOK \<and>
   modelSetup (fst (snd (modelSetup exWorld exPriv))) (snd (snd (modelSetup exWorld exPriv)))
     = (kOfxStatOK, snd (modelSetup exWorld exPriv))"
proof -
  have a: "ready (torch exHistory)"
    by (simp add: exHistory_def)
  have b: "fst (modelSetup exWorld exPriv) = kOfxStatOK"
    by (simp add: exPriv_eq render_defs ex_defs Let_def)
  have c: "trace (fst (snd (modelSetup exWorld exPriv))) \<noteq> trace exWorld"
    by (simp add: exPriv_eq render_defs ex_defs Let_def)
  have d: "\<not> ready (torch exPriv)"
    by (simp add: exPriv_eq)
  from a b c d modelSetup_idempotent [of exHistory exWorld]
    modelSetup_idempotent [of exPriv exWorld]
  show ?thesis by simp
qed

subsection \<open>Parameter validity\<close>

lemma updateParamsValidity_rules:
  "(paramDevice (updateParamsValidity w) = DEVICE_CPU \<longrightarrow>
      paramModelPrecision (updateParamsValidity w) = MODEL_PRECISION_FLOAT32 \<and>
      \<not> paramEnabled (updateParamsValidity w) ''modelPrecision'') \<and>
   (paramDevice (updateParamsValidity w) = DEVICE_CUDA \<longrightarrow>
      paramEnabled (updateParamsValidity w) ''modelPrecision'') \<and>
   (paramEnabled (updateParamsValidity w) ''modelFile'' \<longleftrightarrow>
      paramModel (updateParamsValidity w) = MODEL_CUSTOM) \<and>
   (paramEnabled (updateParamsValidity w) ''colorSource'' \<longleftrightarrow>
      paramOutputType (updateParamsValidity w) = OUTPUT_RGBA) \<and>
   (paramEnabled (updateParamsValidity w) ''postmultiplyAlpha'' \<longleftrightarrow>
      paramOutputType (updateParamsValidity w) = OUTPUT_RGBA)"
  by (simp add: updateParamsValidity_def setParamEnabledness_def Let_def)

text \<open>
  C9. After \<^verbatim>\<open>effectEndInstanceChanged\<close> for a user edit, the host's parameters
  satisfy the validity rules: with the CPU as device the precision is 32 bit float
  and its control is disabled, with CUDA the control is enabled; the control of the
  model file is enabled exactly for the custom model; the controls of the colour
  source and of the alpha multiplication are enabled exactly for the RGBA output.
\<close>

theorem user_edit_params_valid:
  assumes "changeReason inArgs = kOfxChangeUserEdited"
      and "effectEndInstanceChanged w inArgs priv = (status, w', priv')"
  shows "(paramDevice w' = DEVICE_CPU \<longrightarrow>
            paramModelPrecision w' = MODEL_PRECISION_FLOAT32 \<and>
            \<not> paramEnabled w' ''modelPrecision'') \<and>
         (paramDevice w' = DEVICE_CUDA \<longrightarrow> paramEnabled w' ''modelPrecision'') \<and>
         (paramEnabled w' ''modelFile'' \<longleftrightarrow> paramModel w' = MODEL_CUSTOM) \<and>
         (paramEnabled w' ''colorSource'' \<longleftrightarrow> paramOutputType w' = OUTPUT_RGBA) \<and>
         (paramEnabled w' ''postmultiplyAlpha'' \<longleftrightarrow> paramOutputType w' = OUTPUT_RGBA)"
proof -
  have "w' = updateParamsValidity w"
    using assms by (simp add: effectEndInstanceChanged_def strcmp_eq_0 Let_def)
  then show ?thesis
    using updateParamsValidity_rules [of w] by simp
qed

text \<open>
  The rules at work: on the CPU a precision of 16 bit is forced back to 32 bit, and
  with CUDA, the custom model and the alpha output the controls follow.
\<close>

theorem user_edit_params_valid_witness:
  "changeReason userEdit = kOfxChangeUserEdited \<and>
   paramDevice (updateParamsValidity (exWorld\<lparr> paramModelPrecision := 0 \<rparr>)) = DEVICE_CPU \<and>
   paramModelPrecision (updateParamsValidity (exWorld\<lparr> paramModelPrecision := 0 \<rparr>))
     = MODEL_PRECISION_FLOAT32 \<and>
   \<not> paramEnabled (updateParamsValidity (exWorld\<lparr> paramModelPrecision := 0 \<rparr>))
       ''modelPrecision'' \<and>
   paramEnabled (updateParamsValidity
       (exWorld\<lparr> paramDevice := 1, paramModel := 2, paramOutputType := 1 \<rparr>))
     ''modelPrecision'' \<and>
   paramEnabled (updateParamsValidity
       (exWorld\<lparr> paramDevice := 1, paramModel := 2, paramOutputType := 1 \<rparr>))
     ''modelFile'' \<and>
   \<not> paramEnabled (updateParamsValidity
       (exWorld\<lparr> paramDevice := 1, paramModel := 2, paramOutputType := 1 \<rparr>))
     ''colorSource''"
proof -
  have r: "changeReason userEdit = kOfxChangeUserEdited"
    by (simp add: userEdit_def)
  have e: "effectEndInstanceChanged w userEdit p =
      (kOfxStatOK, updateParamsValidity w,
       p\<lparr> downsampleRatio := paramDownsampleRatio (updateParamsValidity w),
          outputType := paramOutputType (updateParamsValidity w),
          colorSource := paramColorSource (updateParamsValidity w),
          postmultiplyAlpha := paramPostmultiplyAlpha (updateParamsValidity w) \<rparr>)" for w p
    by (simp add: effectEndInstanceChanged_def r strcmp_eq_0 Let_def)
  have d0: "paramDevice (updateParamsValidity (exWorld\<lparr> paramModelPrecision := 0 \<rparr>)) = 0"
    by (simp add: updateParamsValidity_def setParamEnabledness_def exWorld_def Let_def)
  have d1: "paramDevice (updateParamsValidity
       (exWorld\<lparr> paramDevice := 1, paramModel := 2, paramOutputType := 1 \<rparr>)) = 1"
      "paramModel (updateParamsValidity
       (exWorld\<lparr> paramDevice := 1, paramModel := 2, paramOutputType := 1 \<rparr>)) = 2"
      "paramOutputType (updateParamsValidity
       (exWorld\<lparr> paramDevice := 1, paramModel := 2, paramOutputType := 1 \<rparr>)) = 1"
    by (simp_all add: updateParamsValidity_def setParamEnabledness_def exWorld_def Let_def)
  from r d0 d1
    user_edit_params_valid [OF r e [of "exWorld\<lparr> paramModelPrecision := 0 \<rparr>" newInstanceData]]
    user_edit_params_valid [OF r e [of "exWorld\<lparr> paramDevice := 1, paramModel := 2,
        paramOutputType := 1 \<rparr>" newInstanceData]]
  show ?thesis by simp
qed

subsection \<open>Frame times as doubles\<close>

lemmas double_defs = round_double_def exponent_def pow2_def round_even_def ilog2.simps

lemma ilog2_bounds: "0 < n \<Longrightarrow> 2 ^ ilog2 n \<le> n \<and> n < 2 ^ Suc (ilog2 n)"
proof (induction n rule: ilog2.induct)
  case (1 n)
  show ?case
  proof (cases "n < 2")
    case True
    with "1.prems" have "n = 1" by simp
    then show ?thesis by (simp add: ilog2.simps)
  next
    case False
    then have pos: "0 < n div 2" by simp
    have eq: "ilog2 n = Suc (ilog2 (n div 2))"
      using False by (subst ilog2.simps) simp
    from "1.IH" [OF False pos]
    have lo: "2 ^ ilog2 (n div 2) \<le> n div 2" and hi: "n div 2 < 2 ^ Suc (ilog2 (n div 2))"
      by simp_all
    from lo have "2 * 2 ^ ilog2 (n div 2) \<le> n" by simp
    moreover from hi have "n < 2 * 2 ^ Suc (ilog2 (n div 2))" by simp
    ultimately show ?thesis by (simp add: eq)
  qed
qed

lemma round_even_of_int: "round_even (of_int j) = j"
  by (simp add: round_even_def)

lemma round_double_int:
  fixes k :: int
  assumes "\<bar>k\<bar> \<le> 2 ^ 53"
  shows "round_double (of_int k) = Time (of_int k)"
proof (cases "k = 0")
  case True
  then show ?thesis by (simp add: round_double_def)
next
  case False
  define n where "n = nat \<bar>k\<bar>"
  define e where "e = ilog2 n"
  have npos: "0 < n" using False by (simp add: n_def)
  have nle: "n \<le> 2 ^ 53" using assms by (simp add: n_def nat_le_iff)
  have lo: "2 ^ e \<le> n" and hi: "n < 2 ^ Suc e"
    using ilog2_bounds [OF npos] by (simp_all add: e_def)
  have "(2::nat) ^ e \<le> 2 ^ 53" using lo nle by simp
  then have e53: "e \<le> 53"
    using power_increasing_iff [of "2::nat" e 53] by simp
  have "1 \<le> \<bar>k\<bar>"
    using False by linarith
  then have "(1::real) \<le> of_int \<bar>k\<bar>"
    by (simp only: of_int_1_le_iff)
  then have one: "1 \<le> \<bar>(of_int k :: real)\<bar>"
    by (simp only: of_int_abs)
  have fl: "\<lfloor>\<bar>(of_int k :: real)\<bar>\<rfloor> = \<bar>k\<bar>"
    by (metis floor_of_int of_int_abs)
  have ex: "exponent (of_int k) = int e"
    by (simp only: exponent_def one fl if_True e_def n_def)
  have q: "max (exponent (of_int k) - 52) (- 1074) = int e - 52"
    by (simp add: ex)
  have bound: "\<bar>(of_int k :: real)\<bar> \<le> 2 ^ 53"
    using assms by (metis of_int_abs of_int_le_iff of_int_numeral of_int_power)
  have big: "(2::real) ^ 53 < 2 ^ 1024" by simp
  have r: "of_int (round_even (of_int k / pow2 (int e - 52))) * pow2 (int e - 52)
             = (of_int k :: real)"
  proof (cases "e \<le> 52")
    case True
    then have p: "pow2 (int e - 52) = 1 / 2 ^ (52 - e)"
      by (cases "e = 52") (simp_all add: pow2_def nat_diff_distrib')
    have d: "(of_int k :: real) / pow2 (int e - 52) = of_int (k * 2 ^ (52 - e))"
      by (simp add: p)
    have "of_int (round_even (of_int k / pow2 (int e - 52))) * pow2 (int e - 52)
            = (of_int (k * 2 ^ (52 - e)) :: real) * (1 / 2 ^ (52 - e))"
      by (simp only: d round_even_of_int, simp only: p)
    also have "\<dots> = of_int k"
      by simp
    finally show ?thesis .
  next
    case False
    with e53 have e: "e = 53" by simp
    then have "n = 2 ^ 53" using lo nle by simp
    then have "\<bar>k\<bar> = 2 ^ 53" using False by (simp add: n_def)
    then have k: "k = 2 ^ 53 \<or> k = - (2 ^ 53)" by linarith
    have p: "pow2 (int e - 52) = 2" by (simp add: e pow2_def)
    from k show ?thesis
    proof
      assume "k = 2 ^ 53"
      then have d: "(of_int k :: real) / 2 = of_int (2 ^ 52)" by simp
      have "of_int (round_even (of_int k / pow2 (int e - 52))) * pow2 (int e - 52)
              = (of_int (2 ^ 52) :: real) * 2"
        by (simp only: p, simp only: d round_even_of_int)
      then show ?thesis using \<open>k = 2 ^ 53\<close> by simp
    next
      assume "k = - (2 ^ 53)"
      then have d: "(of_int k :: real) / 2 = of_int (- (2 ^ 52))" by simp
      have "of_int (round_even (of_int k / pow2 (int e - 52))) * pow2 (int e - 52)
              = (of_int (- (2 ^ 52)) :: real) * 2"
        by (simp only: p, simp only: d round_even_of_int)
      then show ?thesis using \<open>k = - (2 ^ 53)\<close> by simp
    qed
  qed
  have "\<not> (2 ^ 1024 \<le> (of_int k :: real))" "\<not> ((of_int k :: real) \<le> - (2 ^ 1024))"
    using bound big by linarith+
  then show ?thesis
    using False by (simp add: round_double_def q r Let_def)
qed

lemma time_add_frame:
  fixes n :: int
  assumes "\<bar>n\<bar> < 2 ^ 53"
  shows "time_add (Time (of_int n)) 1 = Time (of_int n + 1)"
proof -
  have "\<bar>n + 1\<bar> \<le> 2 ^ 53" using assms by linarith
  then have "round_double (of_int (n + 1)) = Time (of_int (n + 1))"
    by (rule round_double_int)
  then show ?thesis by simp
qed

text \<open>
  Adding 1.0 to a whole number of magnitude below \<open>2^53\<close> is exact; from \<open>2^53\<close> on
  and on fractions it need not be.
\<close>

lemma time_add_examples:
  "time_add (Time 1) 1 = Time 2"
  "time_add (Time (2 ^ 53 + 2)) 1 = Time (2 ^ 53 + 4)"
  "time_add (Time (3602879701896397 / 2 ^ 55)) 1 = Time (2476979795053773 / 2 ^ 51)"
  by (simp_all add: double_defs Let_def)

lemma time_succ_frame:
  fixes n :: int
  assumes "\<bar>n\<bar> < 2 ^ 53"
  shows "time_add (Time (of_int n)) 1 = time_succ (Time (of_int n))"
  using time_add_frame [OF assms] by simp

subsection \<open>The forward pass and the recurrent state\<close>




lemma list4_update:
  "length r = 4 \<Longrightarrow> r[0 := a, Suc 0 := b, 2 := c, 3 := d] = [a, b, c, d]"
  by (auto simp: length_Suc_conv eval_nat_numeral)

lemma list4_nth: "length r = 4 \<Longrightarrow> [r ! 0, r ! Suc 0, r ! 2, r ! 3] = r"
  by (auto simp: length_Suc_conv eval_nat_numeral)

lemma runModel_unfold:
  assumes len: "length (rn (torch priv)) = 4"
  shows "runModel w time priv it =
     (case module_forward w (model (torch priv)) (device (torch priv)) (type (torch priv))
             (forwardArgs time (torch priv) it) (forwardKwargs priv) of
        (None, w1) \<Rightarrow> (Inl StdException, w1, priv)
      | (Some outputs, w1) \<Rightarrow>
          (let p0 = priv\<lparr> torch := (torch priv)\<lparr> rn_time := time \<rparr> \<rparr> in
           case list_get outputs 2 of Inl e \<Rightarrow> (Inl e, w1, p0) | Inr o2 \<Rightarrow>
          (let p1 = set_rn p0 0 o2 in
           case list_get outputs 3 of Inl e \<Rightarrow> (Inl e, w1, p1) | Inr o3 \<Rightarrow>
          (let p2 = set_rn p1 1 o3 in
           case list_get outputs 4 of Inl e \<Rightarrow> (Inl e, w1, p2) | Inr o4 \<Rightarrow>
          (let p3 = set_rn p2 2 o4 in
           case list_get outputs 5 of Inl e \<Rightarrow> (Inl e, w1, p3) | Inr o5 \<Rightarrow>
          (let p4 = set_rn p3 3 o5 in
           case list_get outputs 0 of Inl e \<Rightarrow> (Inl e, w1, p4) | Inr fgr \<Rightarrow>
          (case list_get outputs 1 of Inl e \<Rightarrow> (Inl e, w1, p4) | Inr pha \<Rightarrow>
             (Inr (fgr, pha), w1, p4))))))))"
proof -
  have args: "(if rn (torch priv) ! 0 \<noteq> None \<and>
           (time_eq time (time_add (rn_time (torch priv)) 1) \<or> time_eq time (rn_time (torch priv)))
        then [Some it, rn (torch priv) ! 0, rn (torch priv) ! 1, rn (torch priv) ! 2, rn (torch priv) ! 3]
        else [Some it]) = forwardArgs time (torch priv) it"
  proof -
    have "[rn (torch priv) ! 0, rn (torch priv) ! 1, rn (torch priv) ! 2, rn (torch priv) ! 3]
            = rn (torch priv)"
      using list4_nth [OF len] by simp
    then have "[Some it, rn (torch priv) ! 0, rn (torch priv) ! 1, rn (torch priv) ! 2,
                 rn (torch priv) ! 3] = Some it # rn (torch priv)"
      by simp
    then show ?thesis
      unfolding forwardArgs_def by (simp only: disj_commute)
  qed
  show ?thesis
    unfolding runModel_def Let_def args forwardKwargs_def ..
qed


lemma runModel_six:
  assumes len: "length (rn (torch priv)) = 4"
    and fw: "module_forward w (model (torch priv)) (device (torch priv)) (type (torch priv))
             (forwardArgs time (torch priv) it) (forwardKwargs priv) = (Some outputs, w1)"
    and six: "6 \<le> length outputs"
  shows "runModel w time priv it =
     (Inr (outputs ! 0, outputs ! 1), w1,
      priv\<lparr> torch := (torch priv)\<lparr> rn_time := time,
         rn := [Some (outputs ! 2), Some (outputs ! 3), Some (outputs ! 4), Some (outputs ! 5)] \<rparr> \<rparr>)"
proof -
  have g: "list_get outputs k = Inr (outputs ! k)" if "k < 6" for k
    using that six by (simp add: list_get_def)
  show ?thesis
    unfolding runModel_unfold [OF len] fw
    by (simp add: g Let_def set_rn_def list4_update [OF len])
qed

lemma forwardCalls_append: "forwardCalls (a @ b) = forwardCalls a @ forwardCalls b"
  by (simp add: forwardCalls_def)




lemma clipReleaseImage_forwardCalls:
  "forwardCalls (trace (clipReleaseImage w x)) = forwardCalls (trace w)"
  by (simp add: clipReleaseImage_def forwardCalls_def split: option.split)









text \<open>
  Where the history is whole or empty, its first tensor is defined exactly when it is
  whole; and where the last-used time is moreover not a number or a whole number of
  magnitude below \<open>2^53\<close>, the render code chooses the arguments that the
  specification's rule gives.
\<close>

lemma first_defined_iff_full:
  assumes "hist_inv ts"
  shows "rn ts ! 0 \<noteq> None \<longleftrightarrow> hist_full ts"
proof -
  from assms have "hist_full ts \<or> hist_empty ts" by (simp add: hist_inv_def)
  then show ?thesis
  proof
    assume f: "hist_full ts"
    then have "length (rn ts) = 4" "list_all (\<lambda>t. t \<noteq> None) (rn ts)"
      by (simp_all add: hist_full_def)
    then have "rn ts ! 0 \<noteq> None"
      by (auto simp: length_Suc_conv eval_nat_numeral)
    with f show ?thesis by simp
  next
    assume e: "hist_empty ts"
    then have "rn ts ! 0 = None" "\<not> hist_full ts"
      by (simp_all add: hist_empty_def hist_full_def eval_nat_numeral)
    then show ?thesis by simp
  qed
qed

lemma forwardArgs_frames:
  assumes inv: "hist_inv ts"
    and fr: "rn_time ts = NaN \<or> (\<exists>n::int. \<bar>n\<bar> < 2 ^ 53 \<and> rn_time ts = Time (of_int n))"
  shows "forwardArgs time ts inputTensor = spec_forwardArgs time ts inputTensor"
proof -
  have a: "time_add (rn_time ts) 1 = time_succ (rn_time ts)"
    using fr time_succ_frame by auto
  have b: "(rn ts ! 0 \<noteq> None) = hist_full ts"
    by (rule first_defined_iff_full [OF inv])
  show ?thesis
    unfolding forwardArgs_def spec_forwardArgs_def a b ..
qed








subsection \<open>The history is whole or empty\<close>

lemma hist_inv_len: "hist_inv ts \<Longrightarrow> length (rn ts) = 4"
  by (auto simp: hist_inv_def hist_full_def hist_empty_def)

lemma clear_loop: "length r = 4 \<Longrightarrow> fold (\<lambda>i r. r[i := None]) [0..<4] r = replicate 4 None"
  by (auto simp: length_Suc_conv eval_nat_numeral)

lemma modelClearHistory_empty:
  "hist_inv (torch p) \<Longrightarrow> hist_empty (torch (modelClearHistory p))"
  by (auto simp: modelClearHistory_def hist_inv_def hist_full_def hist_empty_def clear_loop isnan_def)

lemma modelClearHistory_noop:
  "hist_empty (torch p) \<Longrightarrow> modelClearHistory p = p"
  by (simp add: modelClearHistory_def hist_empty_def)

lemma modelClearHistory_inv:
  "hist_inv (torch p) \<Longrightarrow> hist_inv (torch (modelClearHistory p))"
  using modelClearHistory_empty by (simp add: hist_inv_def)

lemma hist_inv_cong:
  "rn ts' = rn ts \<Longrightarrow> rn_time ts' = rn_time ts \<Longrightarrow> hist_inv ts' = hist_inv ts"
  by (simp add: hist_inv_def hist_full_def hist_empty_def)

lemma effectInstanceChanged_inv:
  "hist_inv (torch p) \<Longrightarrow> hist_inv (torch (snd (effectInstanceChanged w a p)))"
  by (simp add: effectInstanceChanged_def Let_def modelClearHistory_inv
        hist_inv_cong [of "(torch p)\<lparr> ready := False \<rparr>" "torch p"])

lemma effectEndInstanceChanged_inv:
  "hist_inv (torch p) \<Longrightarrow> hist_inv (torch (snd (snd (effectEndInstanceChanged w a p))))"
  by (simp add: effectEndInstanceChanged_def Let_def)

lemma modelSetup_rn:
  "hist_inv (torch p) \<Longrightarrow> hist_inv (torch (snd (snd (modelSetup w p))))"
proof -
  assume inv: "hist_inv (torch p)"
  have a: "hist_inv ts" if "rn ts = rn (torch p)" "rn_time ts = rn_time (torch p)" for ts
    using that inv hist_inv_cong by blast
  have b: "hist_inv (torch (modelClearHistory (p\<lparr> torch := ts \<rparr>))\<lparr> ready := True \<rparr>)"
    if "rn ts = rn (torch p)" "rn_time ts = rn_time (torch p)" for ts
  proof -
    have "hist_inv (torch (modelClearHistory (p\<lparr> torch := ts \<rparr>)))"
      using a [OF that] by (simp add: modelClearHistory_inv)
    then show ?thesis
      by (simp add: hist_inv_cong [of "X\<lparr> ready := True \<rparr>" X for X])
  qed
  show ?thesis
    by (simp add: modelSetup_def Let_def inv a b split: prod.split option.split)
qed

lemma getModelFilename_moduleForward:
  "moduleForward (snd (getModelFilename w)) = moduleForward w"
  by (simp add: getModelFilename_def Let_def split: option.split)

lemma modelSetup_moduleForward:
  "moduleForward (fst (snd (modelSetup w p))) = moduleForward w"
proof -
  obtain f w1 where g: "getModelFilename w = (f, w1)" by (cases "getModelFilename w")
  then have w1: "moduleForward w1 = moduleForward w"
    using getModelFilename_moduleForward [of w] by simp
  show ?thesis
    by (cases f) (simp_all add: modelSetup_def g w1 Let_def split: option.split)
qed

lemma six_outputs_cong: "moduleForward w' = moduleForward w \<Longrightarrow> six_outputs w' = six_outputs w"
  by (simp add: six_outputs_def)

lemma alloc_list_length: "length (fst (alloc_list w d ty outs)) = length outs"
  by (induction outs arbitrary: w) (simp_all add: case_prod_beta)

lemma module_forward_six:
  assumes "six_outputs w" and "module_forward w md d ty args kw = (Some outputs, w1)"
  shows "6 \<le> length outputs"
proof (cases md)
  case None
  with assms(2) show ?thesis by (simp add: module_forward_def)
next
  case (Some m0)
  let ?w0 = "w\<lparr> trace := trace w @ [EvForward args kw] \<rparr>"
  show ?thesis
  proof (cases "moduleForward ?w0 m0 (map (map_option (t_read (mem ?w0))) args) kw")
    case None
    with Some assms(2) show ?thesis by (simp add: module_forward_def Let_def)
  next
    case (Some outs)
    then have "6 \<le> length outs"
      using assms(1) by (simp add: six_outputs_def)
    moreover have "outputs = fst (alloc_list ?w0 d ty outs)"
      using assms(2) Some \<open>md = Some m0\<close>
      by (simp add: module_forward_def Let_def case_prod_beta)
    ultimately show ?thesis by (simp add: alloc_list_length)
  qed
qed

lemma hist_full_set:
  "\<not> isnan time \<Longrightarrow>
   hist_inv ((ts :: torch_data)\<lparr> rn_time := time, rn := [Some a, Some b, Some c, Some d] \<rparr>)"
  by (simp add: hist_inv_def hist_full_def)

lemma runModel_inv:
  assumes inv: "hist_inv (torch p)" and t: "\<not> isnan time" and six: "six_outputs w"
  shows "hist_inv (torch (snd (snd (runModel w time p it))))"
proof -
  have len: "length (rn (torch p)) = 4" using inv by (rule hist_inv_len)
  let ?mf = "module_forward w (model (torch p)) (device (torch p)) (type (torch p))
             (forwardArgs time (torch p) it) (forwardKwargs p)"
  obtain r w1 where mf: "?mf = (r, w1)" by (cases ?mf)
  show ?thesis
  proof (cases r)
    case None
    with mf have "runModel w time p it = (Inl StdException, w1, p)"
      by (simp add: runModel_unfold [OF len])
    with inv show ?thesis by simp
  next
    case (Some outputs)
    with mf six have "6 \<le> length outputs" by (simp add: module_forward_six)
    with mf Some show ?thesis
      by (simp add: runModel_six [OF len] hist_full_set [OF t])
  qed
qed

lemma fillImageInfos_moduleForward:
  "moduleForward (snd (fillImageInfos w c t)) = moduleForward w"
  by (simp add: fillImageInfos_def split: option.split)

lemma imageToTensor_moduleForward:
  "moduleForward (snd (imageToTensor w img td tt)) = moduleForward w"
  by (simp add: imageToTensor_def tensor_to_def alloc_def tensor_imul_scalar_def
        split: option.split prod.split)

lemma renderFrame_priv:
  "snd (snd (renderFrame w time p outputImg inputImg)) = p \<or>
   (\<exists>it. snd (snd (renderFrame w time p outputImg inputImg)) =
      snd (snd (runModel (snd (imageToTensor w inputImg (device (torch p)) (type (torch p))))
                 time p it)))"
proof -
  obtain r0 w1 where i2t: "imageToTensor w inputImg (device (torch p)) (type (torch p)) = (r0, w1)"
    by (cases "imageToTensor w inputImg (device (torch p)) (type (torch p))")
  show ?thesis
  proof (cases r0)
    case None
    with i2t show ?thesis by (simp add: renderFrame_def)
  next
    case (Some it0)
    show ?thesis
    proof (cases "t_nch it0 \<noteq> 3 \<and> t_nch it0 \<noteq> 4")
      case True
      with i2t Some show ?thesis by (simp add: renderFrame_def)
    next
      case False
      let ?it = "if t_nch it0 = 4 then narrow it0 0 3 else it0"
      obtain rr w2 p2 where rm: "runModel w1 time p ?it = (rr, w2, p2)"
        by (cases "runModel w1 time p ?it")
      have "snd (snd (renderFrame w time p outputImg inputImg)) = p2"
        using i2t Some False rm
        by (auto simp: renderFrame_def Let_def split: sum.split prod.split)
      with rm i2t have "snd (snd (renderFrame w time p outputImg inputImg)) =
          snd (snd (runModel (snd (imageToTensor w inputImg (device (torch p)) (type (torch p))))
                 time p ?it))"
        by simp
      then show ?thesis by blast
    qed
  qed
qed

lemma renderFrame_inv:
  assumes inv: "hist_inv (torch p)" and t: "\<not> isnan time" and six: "six_outputs w"
  shows "hist_inv (torch (snd (snd (renderFrame w time p outputImg inputImg))))"
proof -
  have "six_outputs (snd (imageToTensor w inputImg (device (torch p)) (type (torch p))))"
    using six six_outputs_cong [OF imageToTensor_moduleForward] by simp
  then show ?thesis
    using renderFrame_priv [of w time p outputImg inputImg] inv runModel_inv [OF inv t]
    by auto
qed

lemma renderTry_inv:
  assumes inv: "hist_inv (torch p)" and t: "\<not> isnan time" and six: "six_outputs w"
  shows "hist_inv (torch (snd (snd (snd (snd (renderTry w time p))))))"
proof -
  obtain r1 w1 where f1: "fillImageInfos w kOfxImageEffectOutputClipName time = (r1, w1)"
    by (cases "fillImageInfos w kOfxImageEffectOutputClipName time")
  have six1: "six_outputs w1"
    using six f1 six_outputs_cong [OF fillImageInfos_moduleForward, of w kOfxImageEffectOutputClipName time]
    by simp
  obtain r2 w2 where f2: "fillImageInfos w1 ''Input'' time = (r2, w2)"
    by (cases "fillImageInfos w1 ''Input'' time")
  have six2: "six_outputs w2"
    using six1 f2 six_outputs_cong [OF fillImageInfos_moduleForward, of w1 "''Input''" time]
    by simp
  show ?thesis
  proof (cases r1)
    case None
    with f1 inv show ?thesis by (simp add: renderTry_def)
  next
    case o: (Some outputImg)
    show ?thesis
    proof (cases r2)
      case None
      with f1 f2 o inv show ?thesis by (simp add: renderTry_def)
    next
      case (Some inputImg)
      have "snd (snd (snd (snd (renderTry w time p)))) =
            snd (snd (renderFrame w2 time p outputImg inputImg))"
        using f1 f2 o Some by (simp add: renderTry_def case_prod_beta)
      then show ?thesis
        using renderFrame_inv [OF inv t six2] by simp
    qed
  qed
qed

lemma effectRender_inv:
  assumes inv: "hist_inv (torch p)" and t: "\<not> isnan time" and six: "six_outputs w"
  shows "hist_inv (torch (snd (snd (effectRender w time p))))"
proof -
  obtain st w0 p0 where ms: "modelSetup w p = (st, w0, p0)"
    by (cases "modelSetup w p")
  have inv0: "hist_inv (torch p0)"
    using modelSetup_rn [OF inv, of w] ms by simp
  have six0: "six_outputs w0"
    using six ms six_outputs_cong [OF modelSetup_moduleForward, of w p] by simp
  show ?thesis
  proof (cases "st = kOfxStatOK")
    case False
    with ms inv0 show ?thesis by (simp add: effectRender_def)
  next
    case True
    obtain r outH inH w1 p1 where rt: "renderTry w0 time p0 = (r, outH, inH, w1, p1)"
      by (cases "renderTry w0 time p0")
    have "hist_inv (torch p1)"
      using renderTry_inv [OF inv0 t six0] rt by simp
    moreover have "snd (snd (effectRender w time p)) = p1"
      using ms True rt by (simp add: effectRender_def Let_def split: option.split exn.split)
    ultimately show ?thesis by simp
  qed
qed

lemma step_inv:
  "hist_inv (torch p) \<Longrightarrow> well_behaved (w, a) \<Longrightarrow> hist_inv (torch (step w a p))"
proof (cases a)
  case (InstanceChanged x)
  assume "hist_inv (torch p)"
  with InstanceChanged show ?thesis by (simp add: effectInstanceChanged_inv)
next
  case (EndInstanceChanged x)
  assume "hist_inv (torch p)"
  with EndInstanceChanged show ?thesis by (simp add: effectEndInstanceChanged_inv)
next
  case (Render time)
  assume inv: "hist_inv (torch p)" and "well_behaved (w, a)"
  with Render have t: "\<not> isnan time" and six: "six_outputs w" by simp_all
  have "snd (snd (ofxMain_render w time p)) = snd (snd (effectRender w time p))"
    by (simp add: ofxMain_render_def split: prod.split sum.split)
  with Render effectRender_inv [OF inv t six] show ?thesis by simp
qed

lemma run_inv:
  "hist_inv (torch p) \<Longrightarrow> list_all well_behaved es \<Longrightarrow> hist_inv (torch (run es p))"
proof (induction es arbitrary: p)
  case Nil
  then show ?case by simp
next
  case (Cons e es)
  obtain w a where e: "e = (w, a)" by (cases e)
  with Cons.prems have "hist_inv (torch (step w a p))" by (simp add: step_inv)
  with Cons e show ?case by simp
qed

lemma new_inv: "hist_inv (torch newInstanceData)"
  by (simp add: newInstanceData_def hist_inv_def hist_empty_def isnan_def)

lemma six_outputs_exWorld: "six_outputs exWorld"
  by (simp add: six_outputs_def exWorld_def exForward_def)

lemma exSession_run: "run exSession newInstanceData = exHistory"
proof -
  have "run exSession newInstanceData = snd (snd (ofxMain_render exWorld (Time 1) exPriv))"
    by (simp add: exSession_def exPriv_def)
  also have "\<dots> = snd (snd (effectRender exWorld (Time 1) exPriv))"
    by (simp add: ofxMain_render_def split: prod.split sum.split)
  finally show ?thesis
    by (simp add: exHistory_reached)
qed

text \<open>
  C6, as the code has it. In every state that a new instance reaches through change
  notifications and render calls whose time is a number and whose forward pass, when
  it returns, returns six tensors or more, the history is whole or empty; there
  \<^verbatim>\<open>modelClearHistory\<close> leaves the empty history, and changes nothing when the
  history is empty already.
\<close>

theorem history_whole_or_empty:
  assumes "list_all well_behaved es"
  shows "hist_inv (torch (run es newInstanceData)) \<and>
         hist_empty (torch (modelClearHistory (run es newInstanceData))) \<and>
         (hist_empty (torch (run es newInstanceData)) \<longrightarrow>
            modelClearHistory (run es newInstanceData) = run es newInstanceData)"
proof -
  have inv: "hist_inv (torch (run es newInstanceData))"
    using new_inv assms by (rule run_inv)
  then have "hist_empty (torch (modelClearHistory (run es newInstanceData)))"
    by (rule modelClearHistory_empty)
  with inv show ?thesis
    by (simp add: modelClearHistory_noop)
qed

theorem history_whole_or_empty_witness:
  "list_all well_behaved exSession \<and>
   hist_full (torch (run exSession newInstanceData)) \<and>
   hist_empty (torch (modelClearHistory (run exSession newInstanceData)))"
proof -
  have wb: "list_all well_behaved exSession"
    by (simp add: exSession_def six_outputs_exWorld isnan_def)
  have full: "hist_full (torch exHistory)"
    by (simp add: exHistory_def hist_full_def isnan_def)
  from history_whole_or_empty [OF wb] wb full show ?thesis
    by (simp add: exSession_run)
qed

text \<open>
  C6 as it is written fails in two ways. A render call at the not-a-number
  time leaves four tensors with the not-a-number time, and \<^verbatim>\<open>modelClearHistory\<close>
  then returns at once without releasing them. A module that returns three tensors
  leaves the time and the first tensor set and the other three unset: the second
  \<^verbatim>\<open>outputs.get\<close> raises after the first two assignments.
\<close>

theorem history_partial_counterexample:
  "\<not> hist_inv (torch (run [(exWorld, Render NaN)] newInstanceData)) \<and>
   \<not> hist_empty (torch (modelClearHistory (run [(exWorld, Render NaN)] newInstanceData))) \<and>
   \<not> hist_inv (torch (run [(exShort, Render (Time 1))] newInstanceData)) \<and>
   rn_time (torch (run [(exShort, Render (Time 1))] newInstanceData)) = Time 1 \<and>
   rn (torch (run [(exShort, Render (Time 1))] newInstanceData))
     = [Some \<lparr> t_data = 4, t_device = kCPU, t_dtype = kFloat32, t_ch0 = 0, t_nch = 1 \<rparr>,
        None, None, None]"
proof -
  define pa where "pa = run [(exWorld, Render NaN)] newInstanceData"
  define pb where "pb = run [(exShort, Render (Time 1))] newInstanceData"
  have a: "torch pa
      = \<lparr> ready = True, device = kCPU, type = kFloat32, model = Some 1, rn_time = NaN,
          rn = rn (torch exHistory) \<rparr>"
    unfolding pa_def
    by (simp add: ofxMain_render_def newInstanceData_def render_defs tensor_defs ex_defs
        ofx_consts Let_def eval_nat_numeral exHistory_def)
  have b: "torch pb
      = \<lparr> ready = True, device = kCPU, type = kFloat32, model = Some 1, rn_time = Time 1,
          rn = [Some \<lparr> t_data = 4, t_device = kCPU, t_dtype = kFloat32, t_ch0 = 0,
                       t_nch = 1 \<rparr>, None, None, None] \<rparr>"
    unfolding pb_def
    by (simp add: ofxMain_render_def newInstanceData_def render_defs tensor_defs ex_defs
        exShort_def ofx_consts Let_def eval_nat_numeral)
  have c: "modelClearHistory pa = pa"
    by (simp add: modelClearHistory_def isnan_def a)
  have "\<not> hist_inv (torch pa) \<and> \<not> hist_empty (torch (modelClearHistory pa)) \<and>
        \<not> hist_inv (torch pb) \<and> rn_time (torch pb) = Time 1 \<and>
        rn (torch pb)
          = [Some \<lparr> t_data = 4, t_device = kCPU, t_dtype = kFloat32, t_ch0 = 0, t_nch = 1 \<rparr>,
             None, None, None]"
    by (simp add: a b c hist_inv_def hist_full_def hist_empty_def isnan_def exHistory_def
        eval_nat_numeral)
  then show ?thesis
    unfolding pa_def pb_def .
qed

subsection \<open>The output compositor\<close>

lemma those_map: "(\<And>x. x \<in> set xs \<Longrightarrow> f x = Some (g x)) \<Longrightarrow> those (map f xs) = Some (map g xs)"
  by (induction xs) simp_all

lemma mul_row_eq: "length b = length a \<Longrightarrow> mul_row a b = Some (map2 (*) a b)"
  by (simp add: mul_row_def bcast_def)

lemma mul_plane_eq:
  assumes "shaped rows cols p" and "shaped rows cols q"
  shows "mul_plane p q = Some (map2 (map2 (*)) p q)"
proof -
  have len: "length q = length p" using assms by (simp add: shaped_def)
  have "\<And>x. x \<in> set (zip p q) \<Longrightarrow> (case x of (a, b) \<Rightarrow> mul_row a b) = Some (case x of (a, b) \<Rightarrow> map2 (*) a b)"
  proof -
    fix x assume "x \<in> set (zip p q)"
    then have "fst x \<in> set p" "snd x \<in> set q"
      by (metis prod.collapse set_zip_leftD, metis prod.collapse set_zip_rightD)
    then have "length (snd x) = length (fst x)"
      using assms by (simp add: shaped_def list_all_iff)
    then show "(case x of (a, b) \<Rightarrow> mul_row a b) = Some (case x of (a, b) \<Rightarrow> map2 (*) a b)"
      by (simp add: case_prod_beta mul_row_eq)
  qed
  then have "those (map (\<lambda>(a, b). mul_row a b) (zip p q)) = Some (map (\<lambda>(a, b). map2 (*) a b) (zip p q))"
    by (rule those_map)
  then show ?thesis by (simp add: mul_plane_def bcast_def len)
qed

lemma shaped_mul:
  assumes "shaped rows cols p" and "shaped rows cols q"
  shows "shaped rows cols (map2 (map2 (*)) p q)"
proof -
  have "length (map2 (*) (fst x) (snd x)) = cols" if "x \<in> set (zip p q)" for x
  proof -
    have "fst x \<in> set p" using that by (metis prod.collapse set_zip_leftD)
    moreover have "snd x \<in> set q" using that by (metis prod.collapse set_zip_rightD)
    ultimately show ?thesis using assms by (simp add: shaped_def list_all_iff)
  qed
  then show ?thesis
    using assms by (auto simp: shaped_def list_all_iff)
qed

lemma mul_planes_eq:
  assumes "length b = length a" and "list_all (shaped rows cols) a" and "list_all (shaped rows cols) b"
  shows "mul_planes a b = Some (hadamard a b)"
proof -
  have "\<And>x. x \<in> set (zip a b) \<Longrightarrow> (case x of (p, q) \<Rightarrow> mul_plane p q) = Some (case x of (p, q) \<Rightarrow> map2 (map2 (*)) p q)"
  proof -
    fix x assume x: "x \<in> set (zip a b)"
    have "fst x \<in> set a" using x by (metis prod.collapse set_zip_leftD)
    moreover have "snd x \<in> set b" using x by (metis prod.collapse set_zip_rightD)
    ultimately have "shaped rows cols (fst x)" "shaped rows cols (snd x)"
      using assms by (simp_all add: list_all_iff)
    then show "(case x of (p, q) \<Rightarrow> mul_plane p q) = Some (case x of (p, q) \<Rightarrow> map2 (map2 (*)) p q)"
      by (simp add: case_prod_beta mul_plane_eq)
  qed
  then have "those (map (\<lambda>(p, q). mul_plane p q) (zip a b)) = Some (map (\<lambda>(p, q). map2 (map2 (*)) p q) (zip a b))"
    by (rule those_map)
  then show ?thesis by (simp add: mul_planes_def bcast_def assms(1) hadamard_def)
qed

lemma hadamard_shaped:
  assumes "length b = length a" and "list_all (shaped rows cols) a" and "list_all (shaped rows cols) b"
  shows "list_all (shaped rows cols) (hadamard a b)" and "length (hadamard a b) = length a"
proof -
  show "length (hadamard a b) = length a" using assms(1) by (simp add: hadamard_def)
  have "\<And>x. x \<in> set (zip a b) \<Longrightarrow> shaped rows cols (map2 (map2 (*)) (fst x) (snd x))"
  proof -
    fix x assume x: "x \<in> set (zip a b)"
    have "fst x \<in> set a" using x by (metis prod.collapse set_zip_leftD)
    moreover have "snd x \<in> set b" using x by (metis prod.collapse set_zip_rightD)
    ultimately show "shaped rows cols (map2 (map2 (*)) (fst x) (snd x))"
      using assms by (simp add: list_all_iff shaped_mul)
  qed
  then show "list_all (shaped rows cols) (hadamard a b)"
    by (auto simp: hadamard_def list_all_iff)
qed

lemma t_read_write_same:
  "t_ch0 t + t_nch t \<le> length (m (t_data t)) \<Longrightarrow> length ps = t_nch t \<Longrightarrow>
   t_read (t_write m t ps) t = ps"
  by (simp add: t_read_def t_write_def)

lemma t_read_write_other:
  "t_data u \<noteq> t_data t \<Longrightarrow> t_read (t_write m t ps) u = t_read m u"
  by (simp add: t_read_def t_write_def)

lemma t_read_length:
  "t_ch0 t + t_nch t \<le> length (m (t_data t)) \<Longrightarrow> length (t_read m t) = t_nch t"
  by (simp add: t_read_def)

lemma map_length_shaped: "shaped rows cols p \<Longrightarrow> map length p = replicate rows cols"
proof -
  have "list_all (\<lambda>r. length r = cols) p \<Longrightarrow> map length p = replicate (length p) cols"
    by (induction p) simp_all
  then show "shaped rows cols p \<Longrightarrow> map length p = replicate rows cols"
    by (simp add: shaped_def)
qed

lemma remdups_const: "length (remdups (replicate n x)) \<le> Suc 0"
  by (induction n) simp_all

lemma t_read_new:
  "n = length ps \<Longrightarrow>
   t_read (m(a := ps)) \<lparr> t_data = a, t_device = d, t_dtype = ty, t_ch0 = 0, t_nch = n \<rparr> = ps"
  by (simp add: t_read_def)

lemma same_shape_cat:
  assumes "list_all (shaped rows cols) xs"
  shows "length (remdups (map (map length) xs)) \<le> 1"
proof -
  have "map (map length) xs = replicate (length xs) (replicate rows cols)"
    using assms by (induction xs) (simp_all add: map_length_shaped)
  then show ?thesis by (simp add: remdups_const)
qed

lemma tensor_cat_ok:
  assumes "list_all (shaped rows cols) (t_read (mem w) a @ t_read (mem w) b)"
  shows "composed (tensor_cat w a b) = Some (t_read (mem w) a @ t_read (mem w) b)"
  using same_shape_cat [OF assms]
  by (simp add: tensor_cat_def composed_def alloc_def Let_def t_read_new)

lemma tensor_repeat_ok:
  "composed (case tensor_repeat w t n of (r, w1) \<Rightarrow> (Inr r, w1)) =
     Some (concat (replicate n (t_read (mem w) t)))"
  by (simp add: tensor_repeat_def composed_def alloc_def t_read_new)

lemma premultiply_ok:
  assumes vf: "valid_view w f" and vp: "valid_view w pha"
    and sep: "t_data pha \<noteq> t_data f"
    and nf: "t_nch f = 3" and np: "t_nch pha = 1"
    and sh: "list_all (shaped rows cols) (t_read (mem w) f @ t_read (mem w) pha)"
  shows "\<exists>w2. (case tensor_repeat w pha 3 of (r, w1) \<Rightarrow> tensor_imul w1 f r) = (None, w2) \<and>
           t_read (mem w2) f = hadamard (t_read (mem w) f) (concat (replicate 3 (t_read (mem w) pha))) \<and>
           t_read (mem w2) pha = t_read (mem w) pha"
proof -
  let ?F = "t_read (mem w) f" and ?A = "t_read (mem w) pha"
  let ?AAA = "concat (replicate 3 ?A)"
  let ?m1 = "(mem w)(brk w := ?AAA)"
  have lf: "length ?F = 3" using vf nf by (simp add: valid_view_def t_read_length)
  have la: "length ?A = 1" using vp np by (simp add: valid_view_def t_read_length)
  have laaa: "length ?AAA = 3" using la by (simp add: eval_nat_numeral)
  have shF: "list_all (shaped rows cols) ?F" and shA: "list_all (shaped rows cols) ?A"
    using sh by simp_all
  have shAAA: "list_all (shaped rows cols) ?AAA"
    using shA by (simp add: eval_nat_numeral)
  have fold: "t_data f \<noteq> brk w" "t_data pha \<noteq> brk w"
    using vf vp by (auto simp: valid_view_def)
  have rF: "t_read ?m1 f = ?F" and rA: "t_read ?m1 pha = ?A"
    using fold by (simp_all add: t_read_def)
  have mul: "mul_planes ?F ?AAA = Some (hadamard ?F ?AAA)"
    using mul_planes_eq [of ?AAA ?F rows cols] lf laaa shF shAAA by simp
  have lh: "length (hadamard ?F ?AAA) = t_nch f"
    using hadamard_shaped(2) [of ?AAA ?F rows cols] lf laaa shF shAAA nf by simp
  have bound: "t_ch0 f + t_nch f \<le> length (?m1 (t_data f))"
    using vf fold by (simp add: valid_view_def)
  let ?w2 = "w\<lparr> mem := ?m1, brk := Suc (brk w) \<rparr>\<lparr> mem := t_write ?m1 f (hadamard ?F ?AAA) \<rparr>"
  have step: "(case tensor_repeat w pha 3 of (r, w1) \<Rightarrow> tensor_imul w1 f r) = (None, ?w2)"
    using rF mul laaa
    by (simp add: tensor_repeat_def alloc_def tensor_imul_def t_read_new)
  have "t_read (mem ?w2) f = hadamard ?F ?AAA"
    using t_read_write_same [of f ?m1 "hadamard ?F ?AAA"] bound lh by simp
  moreover have "t_read (mem ?w2) pha = ?A"
    using t_read_write_other [OF sep, of ?m1 "hadamard ?F ?AAA"] rA by simp
  ultimately show ?thesis using step by blast
qed

lemma full_colour_ok:
  assumes vf: "valid_view w f" and vp: "valid_view w pha"
    and sep: "t_data pha \<noteq> t_data f"
    and nf: "t_nch f = 3" and np: "t_nch pha = 1"
    and sh: "list_all (shaped rows cols) (t_read (mem w) f @ t_read (mem w) pha)"
  shows "composed
           (case (if pm then (case tensor_repeat w pha 3 of (r, w1) \<Rightarrow> tensor_imul w1 f r)
                  else (None, w)) of
              (Some e, w2) \<Rightarrow> (Inl e, w2)
            | (None, w2) \<Rightarrow> tensor_cat w2 f pha)
         = Some ((if pm then hadamard (t_read (mem w) f) (concat (replicate 3 (t_read (mem w) pha)))
                  else t_read (mem w) f) @ t_read (mem w) pha)"
proof (cases pm)
  case False
  then show ?thesis using tensor_cat_ok [OF sh] by simp
next
  case True
  let ?F = "t_read (mem w) f" and ?A = "t_read (mem w) pha"
  let ?AAA = "concat (replicate 3 ?A)"
  obtain w2 where
    step: "(case tensor_repeat w pha 3 of (r, w1) \<Rightarrow> tensor_imul w1 f r) = (None, w2)"
    and rf: "t_read (mem w2) f = hadamard ?F ?AAA"
    and rp: "t_read (mem w2) pha = ?A"
    using premultiply_ok [OF vf vp sep nf np sh] by blast
  have lf: "length ?F = 3" using vf nf by (simp add: valid_view_def t_read_length)
  have la: "length ?A = 1" using vp np by (simp add: valid_view_def t_read_length)
  have laaa: "length ?AAA = length ?F" using la lf by (simp add: eval_nat_numeral)
  have shF: "list_all (shaped rows cols) ?F" and shA: "list_all (shaped rows cols) ?A"
    using sh by simp_all
  have shAAA: "list_all (shaped rows cols) ?AAA"
    using shA by (simp add: eval_nat_numeral)
  have "list_all (shaped rows cols) (hadamard ?F ?AAA)"
    using hadamard_shaped(1) [OF laaa shF shAAA] .
  then have "list_all (shaped rows cols) (t_read (mem w2) f @ t_read (mem w2) pha)"
    using rf rp shA by simp
  then have "composed (tensor_cat w2 f pha) = Some (hadamard ?F ?AAA @ ?A)"
    using tensor_cat_ok [of rows cols w2 f pha] rf rp by simp
  with True step show ?thesis by simp
qed

text \<open>
  C8. On an input of three channels, a foreground of three channels and an alpha of
  one channel, all of the same rows and columns, the alpha on a storage of its own,
  \<open>postProcess\<close> computes what the specification says (\<open>spec_composite\<close>): in
  full-colour mode the concatenation of the chosen foreground (the model's for the
  colour source \<^verbatim>\<open>model\<close>, the input for \<^verbatim>\<open>input\<close>), multiplied element by element
  by the alpha repeated on three channels when the multiplication is enabled, with the
  alpha; in alpha-only mode the alpha repeated on the 4, 3 or 1 channels of the
  destination layout, and a failure for any other layout; and a failure for any other
  output type.
\<close>

theorem postProcess_composite:
  assumes "valid_view w inputTensor" and "valid_view w fgr" and vp: "valid_view w pha"
    and "t_data pha \<noteq> t_data inputTensor" and "t_data pha \<noteq> t_data fgr"
    and "t_nch inputTensor = 3" and "t_nch fgr = 3" and np: "t_nch pha = 1"
    and sh: "list_all (shaped rows cols)
               (t_read (mem w) inputTensor @ t_read (mem w) fgr @ t_read (mem w) pha)"
    and cs: "colorSource priv = COLOR_SRC_INPUT \<or> colorSource priv = COLOR_SRC_MODEL"
  shows "composed (postProcess w priv outputImg inputTensor fgr pha) =
         spec_composite (outputType priv) (colorSource priv) (postmultiplyAlpha priv)
           (components outputImg)
           (t_read (mem w) fgr) (t_read (mem w) inputTensor) (t_read (mem w) pha)"
proof -
  consider (rgba) "outputType priv = OUTPUT_RGBA"
    | (alpha) "outputType priv = OUTPUT_ALPHA"
    | (other) "outputType priv \<noteq> OUTPUT_RGBA" "outputType priv \<noteq> OUTPUT_ALPHA"
    by blast
  then show ?thesis
  proof cases
    case rgba
    from cs show ?thesis
    proof
      assume c: "colorSource priv = COLOR_SRC_INPUT"
      have "list_all (shaped rows cols) (t_read (mem w) inputTensor @ t_read (mem w) pha)"
        using sh by simp
      from full_colour_ok [OF assms(1) vp assms(4) assms(6) np this, of "postmultiplyAlpha priv"]
      show ?thesis using rgba c by (simp add: postProcess_def spec_composite_def Let_def)
    next
      assume c: "colorSource priv = COLOR_SRC_MODEL"
      have "list_all (shaped rows cols) (t_read (mem w) fgr @ t_read (mem w) pha)"
        using sh by simp
      from full_colour_ok [OF assms(2) vp assms(5) assms(7) np this, of "postmultiplyAlpha priv"]
      show ?thesis using rgba c by (simp add: postProcess_def spec_composite_def Let_def)
    qed
  next
    case alpha
    show ?thesis
      using alpha tensor_repeat_ok [of w pha]
      by (simp add: postProcess_def spec_composite_def layoutChannels_def strcmp_eq_0 composed_def)
  next
    case other
    then show ?thesis
      by (simp add: postProcess_def spec_composite_def composed_def)
  qed
qed

theorem postProcess_composite_witness:
  "valid_view exCompose exInput \<and> valid_view exCompose exFgr \<and> valid_view exCompose exPha \<and>
   list_all (shaped 1 1)
     (t_read (mem exCompose) exInput @ t_read (mem exCompose) exFgr @ t_read (mem exCompose) exPha) \<and>
   colorSource exPriv = COLOR_SRC_INPUT \<and> postmultiplyAlpha exPriv \<and>
   outputType exPriv = OUTPUT_RGBA \<and>
   composed (postProcess exCompose exPriv exOutputImg exInput exFgr exPha)
     = Some [[[1 / 4]], [[1 / 8]], [[1 / 2]], [[1 / 2]]] \<and>
   composed (postProcess exCompose (exPriv\<lparr> colorSource := COLOR_SRC_MODEL \<rparr>) exOutputImg
               exInput exFgr exPha)
     = Some [[[1 / 2]], [[1 / 2]], [[1 / 2]], [[1 / 2]]] \<and>
   composed (postProcess exCompose (exPriv\<lparr> outputType := OUTPUT_ALPHA \<rparr>) exOutputImg
               exInput exFgr exPha)
     = Some [[[1 / 2]], [[1 / 2]], [[1 / 2]], [[1 / 2]]] \<and>
   composed (postProcess exCompose (exPriv\<lparr> outputType := 2 \<rparr>) exOutputImg
               exInput exFgr exPha)
     = None"
proof -
  have v: "valid_view exCompose exInput" "valid_view exCompose exFgr" "valid_view exCompose exPha"
    by (simp_all add: valid_view_def exCompose_def exInput_def exFgr_def exPha_def ex_defs)
  have sep: "t_data exPha \<noteq> t_data exInput" "t_data exPha \<noteq> t_data exFgr"
    by (simp_all add: exInput_def exFgr_def exPha_def)
  have n: "t_nch exInput = 3" "t_nch exFgr = 3" "t_nch exPha = 1"
    by (simp_all add: exInput_def exFgr_def exPha_def)
  have r: "t_read (mem exCompose) exInput = [[[1 / 2]], [[1 / 4]], [[1]]]"
      "t_read (mem exCompose) exFgr = [[[1]], [[1]], [[1]]]"
      "t_read (mem exCompose) exPha = [[[1 / 2]]]"
    by (simp_all add: t_read_def exCompose_def exInput_def exFgr_def exPha_def ex_defs)
  have sh: "list_all (shaped 1 1)
     (t_read (mem exCompose) exInput @ t_read (mem exCompose) exFgr @ t_read (mem exCompose) exPha)"
    by (simp add: r shaped_def)
  have p: "colorSource exPriv = COLOR_SRC_INPUT" "postmultiplyAlpha exPriv"
      "outputType exPriv = OUTPUT_RGBA"
    by (simp_all add: exPriv_eq)
  have cs: "colorSource q = COLOR_SRC_INPUT \<or> colorSource q = COLOR_SRC_MODEL"
    if "colorSource q = 0 \<or> colorSource q = 1" for q :: InstanceData
    using that by simp
  note inst = postProcess_composite [OF v sep n sh, of _ exOutputImg]
  from inst [of exPriv] inst [of "exPriv\<lparr> colorSource := COLOR_SRC_MODEL \<rparr>"]
    inst [of "exPriv\<lparr> outputType := OUTPUT_ALPHA \<rparr>"] inst [of "exPriv\<lparr> outputType := 2 \<rparr>"]
  show ?thesis
    using v sh p
    by (simp add: r spec_composite_def hadamard_def layoutChannels_def exOutputImg_def
        ofx_consts exPriv_eq eval_nat_numeral)
qed

subsection \<open>The render call at concrete inputs\<close>

text \<open>
  A render call that finds no image on the output clip goes to the cleanup code at
  once. Neither handle has been set, and what the two local variables happen to
  hold (here 7 and 8) is handed to \<^verbatim>\<open>clipReleaseImage\<close>.
\<close>

lemma render_without_output_releases_unset_handles:
  "fst (effectRender (exWorld\<lparr> clipImage := (\<lambda>c t. None) \<rparr>) (Time 1) exHistory)
     = Inr kOfxStatFailed \<and>
   trace (fst (snd (effectRender (exWorld\<lparr> clipImage := (\<lambda>c t. None) \<rparr>) (Time 1) exHistory)))
     = [EvAbort, EvReleaseImage 7, EvReleaseImage 8]"
  by (simp add: exHistory_def render_defs ex_defs ofx_consts Let_def)

text \<open>
  C5. Every image acquired during a render call should be released before the call
  returns, also when the inference raises. With a module whose forward pass raises,
  both images are acquired, the exception leaves \<^verbatim>\<open>effectRender\<close> past its cleanup
  code, \<^verbatim>\<open>ofxMain\<close> answers \<^verbatim>\<open>kOfxStatErrUnknown\<close>, and the trace ends with the
  forward call: no image is released.
\<close>

theorem render_exception_leaks_images:
  "fst (effectRender exFailing (Time 1) exPriv) = Inl StdException \<and>
   fst (ofxMain_render exFailing (Time 1) exPriv) = kOfxStatErrUnknown \<and>
   trace (fst (snd (ofxMain_render exFailing (Time 1) exPriv)))
     = [EvLoad ''/plugin/Contents/Resources/rvm_mobilenetv3_fp32.torchscript'',
        EvGetImage 1, EvGetImage 2,
        EvForward [Some \<lparr> t_data = 1, t_device = kCPU, t_dtype = kFloat32, t_ch0 = 0,
                          t_nch = 3 \<rparr>] None]"
  by (simp add: ofxMain_render_def exPriv_eq render_defs tensor_defs ex_defs exFailing_def
      ofx_consts Let_def eval_nat_numeral)

text \<open>
  C10. The input image of the host should be unchanged when the render call returns.
  With a float image, the CPU as device and 32 bit precision, \<^verbatim>\<open>Tensor::to\<close> has
  nothing to convert and returns the view on the image itself; with the colour taken
  from the input clip and multiplied by the alpha, \<^verbatim>\<open>fgr *= pha.repeat(...)\<close> then
  writes through it. The call succeeds, and the three colour planes of the input
  image, at address 1, have been multiplied by the alpha of one half.
\<close>

theorem render_overwrites_input_image:
  "mem exWorld 1 = [[[1 / 2]], [[1 / 4]], [[1]], [[1]]] \<and>
   fst (effectRender exWorld (Time 1) exPriv) = Inr kOfxStatOK \<and>
   mem (fst (snd (effectRender exWorld (Time 1) exPriv))) 1
     = [[[1 / 4]], [[1 / 8]], [[1 / 2]], [[1]]]"
  by (simp add: exPriv_eq render_defs tensor_defs ex_defs ofx_consts Let_def eval_nat_numeral)

text \<open>
  C4. Converting an image to a tensor and writing the tensor back should reproduce
  the image, exactly so for the depths byte and short. For a byte image the
  conversion to a tensor succeeds, but \<^verbatim>\<open>tensorToImage\<close> raises at
  \<^verbatim>\<open>data_ptr<float>()\<close> on the byte tensor it has just made, before any row is
  copied: the destination keeps its zeros.
\<close>

theorem byte_round_trip_raises:
  "mem exByteWorld (ptr exByteSrc) = [[[255]], [[128]], [[0]], [[64]]] \<and>
   fst (roundTrip exByteWorld exByteSrc exByteDst kCPU kFloat32) = Some StdException \<and>
   mem (snd (roundTrip exByteWorld exByteSrc exByteDst kCPU kFloat32)) (ptr exByteDst)
     = [[[0]], [[0]], [[0]], [[0]]]"
  by (simp add: roundTrip_def exByteWorld_def exByteMem_def exByteSrc_def exByteDst_def
      render_defs tensor_defs ex_defs ofx_consts Let_def eval_nat_numeral)

end
